theory Spec2Isabelle
  imports Complex_Main
begin

section \<open>JavaScript values and built-ins\<close>

text \<open>
  The front-end is written in JavaScript. A property of an object read from a JSON
  response can be missing (\<open>undefined\<close>), \<open>null\<close>, or hold a value; the three cases are
  kept apart because the code tests them with truthiness (\<open>x ? a : b\<close>, \<open>x || y\<close>).
\<close>

datatype 'a field = Absent | Null | Val 'a

text \<open>Truthiness of an optional string (the empty string is falsy), of an optional
  object (every object is truthy) and of an optional number (zero is falsy; numbers that
  come out of JSON are finite, and are kept as rationals since they are only copied and
  tested against zero).\<close>

fun truthy_str :: "string field \<Rightarrow> bool" where
  "truthy_str (Val s) = (s \<noteq> [])"
| "truthy_str Absent = False"
| "truthy_str Null = False"

fun truthy_obj :: "'a field \<Rightarrow> bool" where
  "truthy_obj (Val x) = True"
| "truthy_obj Absent = False"
| "truthy_obj Null = False"

fun truthy_num :: "rat field \<Rightarrow> bool" where
  "truthy_num (Val x) = (x \<noteq> 0)"
| "truthy_num Absent = False"
| "truthy_num Null = False"

text \<open>\<open>a || b\<close> on optional numbers and on optional strings.\<close>

definition num_or :: "rat field \<Rightarrow> rat field \<Rightarrow> rat field" where
  "num_or a b = (if truthy_num a then a else b)"

definition str_or :: "string field \<Rightarrow> string field \<Rightarrow> string field" where
  "str_or a b = (if truthy_str a then a else b)"

text \<open>\<open>x || ''\<close> on an optional string.\<close>

fun str_or_empty :: "string field \<Rightarrow> string" where
  "str_or_empty (Val s) = s"
| "str_or_empty Absent = []"
| "str_or_empty Null = []"

text \<open>\<open>String.prototype.includes\<close>: the argument occurs as a substring.\<close>

fun js_includes :: "string \<Rightarrow> string \<Rightarrow> bool" where
  "js_includes [] t = (t = [])"
| "js_includes (c # cs) t = (take (length t) (c # cs) = t \<or> js_includes cs t)"

text \<open>An optional string inside a template literal: \<open>`${x}`\<close>.\<close>

fun template_str :: "string field \<Rightarrow> string" where
  "template_str (Val s) = s"
| "template_str Absent = ''undefined''"
| "template_str Null = ''null''"

text \<open>\<open>Array.prototype.slice(start, end)\<close> with the clamping of the language standard:
  a negative index counts from the end, an index past the end is the length, and an
  empty range gives the empty array.\<close>

definition js_slice :: "'a list \<Rightarrow> int \<Rightarrow> int \<Rightarrow> 'a list" where
  "js_slice xs start fin =
     (let len = int (length xs);
          k = (if start < 0 then max (len + start) 0 else min start len);
          final = (if fin < 0 then max (len + fin) 0 else min fin len)
      in take (nat (final - k)) (drop (nat k) xs))"

text \<open>\<open>Math.ceil\<close> and \<open>Math.floor\<close> on the exact quotient. The divisors of this program
  are the positive constants 2, 10 and 20.\<close>

definition Math_ceil :: "rat \<Rightarrow> int" where
  "Math_ceil x = \<lceil>x\<rceil>"




section \<open>Data model\<close>

text \<open>A paginated list response \<open>{ results, count, next, previous }\<close>. The item type is
  a parameter; \<open>next\<close> is spelled \<open>next_link\<close> here.\<close>

record 'a listing =
  results :: "'a list field"
  count :: "nat field"
  next_link :: "string field"
  previous :: "string field"

text \<open>\<open>data?.results\<close>: nothing when \<open>data\<close> is null or has no result array.\<close>

definition opt_results :: "('a, 'm) listing_scheme option \<Rightarrow> 'a list option" where
  "opt_results data =
     (case data of
        None \<Rightarrow> None
      | Some d \<Rightarrow> (case results d of Val rs \<Rightarrow> Some rs | Absent \<Rightarrow> None | Null \<Rightarrow> None))"


section \<open>Pagination helper\<close>

subsection \<open>MappingDetailsPage.js\<close>

text \<open>\<open>itemsPerPage\<close> is component state initialised to 10 and never set again.\<close>

definition MappingDetailsPage_itemsPerPage :: int where
  "MappingDetailsPage_itemsPerPage = 10"

definition getCurrentPageData :: "int \<Rightarrow> int \<Rightarrow> ('a, 'm) listing_scheme option \<Rightarrow> 'a list" where
  "getCurrentPageData currentPage itemsPerPage data =
     (case opt_results data of
        None \<Rightarrow> []
      | Some rs \<Rightarrow>
          if length rs = 0 then []
          else (let startIndex = (currentPage - 1) * itemsPerPage;
                    endIndex = startIndex + itemsPerPage
                in js_slice rs startIndex endIndex))"

definition getTotalPages :: "int \<Rightarrow> ('a, 'm) listing_scheme option \<Rightarrow> int" where
  "getTotalPages itemsPerPage data =
     (case opt_results data of
        None \<Rightarrow> 0
      | Some rs \<Rightarrow>
          if length rs = 0 then 0
          else Math_ceil (of_nat (length rs) / of_int itemsPerPage))"


subsection \<open>SystemResultsPage.jsx\<close>

definition SystemResultsPage_itemsPerPage :: int where
  "SystemResultsPage_itemsPerPage = 20"

definition pageData :: "int \<Rightarrow> int \<Rightarrow> ('a, 'm) listing_scheme option \<Rightarrow> 'a list" where
  "pageData currentPage itemsPerPage data =
     (case opt_results data of
        None \<Rightarrow> []
      | Some rs \<Rightarrow>
          if length rs = 0 then []
          else (let start = (currentPage - 1) * itemsPerPage
                in js_slice rs start (start + itemsPerPage)))"

definition SystemResultsPage_totalPages :: "int \<Rightarrow> ('a, 'm) listing_scheme option \<Rightarrow> int" where
  "SystemResultsPage_totalPages itemsPerPage data =
     (case opt_results data of
        None \<Rightarrow> 0
      | Some rs \<Rightarrow>
          if length rs = 0 then 0
          else Math_ceil (of_nat (length rs) / of_int itemsPerPage))"


subsection \<open>SystemPage (src/unnamed/part_001)\<close>

definition resultsPerPage :: int where
  "resultsPerPage = 10"

definition SystemPage_totalPages :: "'a list \<Rightarrow> int" where
  "SystemPage_totalPages rs = Math_ceil (of_nat (length rs) / of_int resultsPerPage)"

definition currentResults :: "int \<Rightarrow> 'a list \<Rightarrow> 'a list" where
  "currentResults currentPage rs =
     js_slice rs ((currentPage - 1) * resultsPerPage) (currentPage * resultsPerPage)"




section \<open>Terms and mappings\<close>

text \<open>A term of one of the terminology systems, as the REST API returns it. A result of
  the combined search is an ICD-11 term with the mapped traditional-medicine terms in
  \<open>related_ayurveda\<close>, \<open>related_siddha\<close> and \<open>related_unani\<close>. \<open>id\<close> and \<open>definition\<close> are
  spelled \<open>item_id\<close> and \<open>definition_text\<close>.\<close>

record related_term =
  rel_code :: "string field"
  rel_english_name :: "string field"
  rel_local_name :: "string field"
  rel_id :: "string field"

record mapping_info =
  mi_confidence_score :: "rat field"

record term_rec =
  item_id :: "string field"
  code :: "string field"
  title :: "string field"
  english_name :: "string field"
  definition_text :: "string field"
  class_kind :: "string field"
  foundation_uri :: "string field"
  search_score :: "rat field"
  mapping_info :: "mapping_info field"
  related_ayurveda :: "related_term field"
  related_siddha :: "related_term field"
  related_unani :: "related_term field"

text \<open>The normalised mapping record that the search page derives from a combined
  result.\<close>

record source_term =
  st_code :: "string field"
  st_english_name :: "string field"
  st_hindi_name :: "string field"

record namaste_term =
  nt_code :: "string field"
  nt_english_name :: "string field"
  nt_local_name :: "string field"

record namaste_terms =
  ayurveda :: "namaste_term field"
  siddha :: "namaste_term field"
  unani :: "namaste_term field"

record icd_mapping =
  icd_code :: "string field"
  icd_title :: "string field"
  icd_definition :: "string field"
  icd_class_kind :: "string field"
  icd_foundation_uri :: "string field"

record mapping =
  mapping_id :: "string field"
  source_term :: source_term
  namaste_terms :: namaste_terms
  icd_mapping :: icd_mapping
  confidence_score :: "rat field"
  mapping_search_score :: "rat field"


section \<open>Detail aggregator: best-match selection (MappingDetailsPage.js)\<close>

text \<open>\<open>(result.english_name || result.title || '')\<close>.\<close>

definition resultName :: "term_rec \<Rightarrow> string" where
  "resultName result = str_or_empty (str_or (english_name result) (title result))"

text \<open>\<open>findBestMatch(data, termName)\<close>. \<open>String.prototype.toLowerCase\<close> is a built-in of
  the host and is taken as the parameter \<open>toLowerCase\<close>. The result is a term or
  \<open>null\<close> (\<open>None\<close>).\<close>

definition findBestMatch ::
  "(string \<Rightarrow> string) \<Rightarrow> (term_rec, 'm) listing_scheme option \<Rightarrow> string \<Rightarrow> term_rec option" where
  "findBestMatch toLowerCase data termName =
     (case opt_results data of
        None \<Rightarrow> None
      | Some rs \<Rightarrow>
          (case rs of
             [] \<Rightarrow> None
           | first # rest \<Rightarrow>
               (let termNameLower = toLowerCase termName;
                    match = find (\<lambda>result. toLowerCase (resultName result) = termNameLower) rs;
                    match' = (case match of
                                Some m \<Rightarrow> Some m
                              | None \<Rightarrow>
                                  find (\<lambda>result.
                                          js_includes (toLowerCase (resultName result)) termNameLower
                                          \<or> js_includes termNameLower (toLowerCase (resultName result))) rs)
                in (case match' of Some m \<Rightarrow> Some m | None \<Rightarrow> Some first))))"


section \<open>Search orchestrator: reshaping a combined result (SearchPage.js)\<close>

text \<open>\<open>item.related_x ? { code: item.related_x.code, english_name: ..., local_name: ... } : null\<close>.
  The object is built only where the condition holds, that is from a value.\<close>

definition namaste_slot :: "related_term field \<Rightarrow> namaste_term field" where
  "namaste_slot related =
     (if truthy_obj related
      then (case related of
              Val r \<Rightarrow> Val \<lparr>nt_code = rel_code r, nt_english_name = rel_english_name r,
                            nt_local_name = rel_local_name r\<rparr>
            | Absent \<Rightarrow> Null
            | Null \<Rightarrow> Null)
      else Null)"

text \<open>\<open>item.mapping_info?.confidence_score\<close>.\<close>

definition opt_confidence_score :: "term_rec \<Rightarrow> rat field" where
  "opt_confidence_score item =
     (case mapping_info item of Val mi \<Rightarrow> mi_confidence_score mi | Absent \<Rightarrow> Absent | Null \<Rightarrow> Absent)"

text \<open>The arrow function that \<open>performSearch\<close> maps over \<open>combinedData.results\<close>.\<close>

definition toMappingResult :: "term_rec \<Rightarrow> mapping" where
  "toMappingResult item =
     \<lparr>mapping_id = item_id item,
      source_term = \<lparr>st_code = code item, st_english_name = title item, st_hindi_name = Null\<rparr>,
      namaste_terms =
        \<lparr>ayurveda = namaste_slot (related_ayurveda item),
         siddha = namaste_slot (related_siddha item),
         unani = namaste_slot (related_unani item)\<rparr>,
      icd_mapping =
        \<lparr>icd_code = code item, icd_title = title item, icd_definition = definition_text item,
         icd_class_kind = class_kind item, icd_foundation_uri = foundation_uri item\<rparr>,
      confidence_score = num_or (num_or (opt_confidence_score item) (search_score item)) (Val (7 / 10)),
      mapping_search_score = search_score item\<rparr>"

text \<open>\<open>combinedData?.results ? combinedData.results.map(...) : []\<close>.\<close>

definition deriveMappingResults :: "term_rec listing option \<Rightarrow> mapping list" where
  "deriveMappingResults combinedData =
     (case opt_results combinedData of Some rs \<Rightarrow> map toMappingResult rs | None \<Rightarrow> [])"


section \<open>Effects: state, exceptions and the network\<close>

text \<open>
  A handler is a function from the state before to an outcome and the state after. The
  outcome is \<open>Inr\<close> of the returned value, or \<open>Inl\<close> of the exception that escapes.
  \<open>await\<close> is sequencing: a handler is followed to the point where its promise settles.
\<close>

datatype exn = NetworkFailure | HttpError nat | InvalidJson

type_synonym ('s, 'a) js = "'s \<Rightarrow> (exn + 'a) \<times> 's"

definition js_return :: "'a \<Rightarrow> ('s, 'a) js" where
  "js_return x = (\<lambda>s. (Inr x, s))"

definition js_throw :: "exn \<Rightarrow> ('s, 'a) js" where
  "js_throw e = (\<lambda>s. (Inl e, s))"

definition js_bind :: "('s, 'a) js \<Rightarrow> ('a \<Rightarrow> ('s, 'b) js) \<Rightarrow> ('s, 'b) js" where
  "js_bind m f = (\<lambda>s. case m s of (Inl e, s') \<Rightarrow> (Inl e, s') | (Inr x, s') \<Rightarrow> f x s')"

definition js_get :: "('s, 's) js" where
  "js_get = (\<lambda>s. (Inr s, s))"

definition set_state :: "('s \<Rightarrow> 's) \<Rightarrow> ('s, unit) js" where
  "set_state f = (\<lambda>s. (Inr (), f s))"

text \<open>\<open>try { m } catch (error) { h error }\<close> and \<open>try { m } finally { fin }\<close>.\<close>

definition try_catch :: "('s, 'a) js \<Rightarrow> (exn \<Rightarrow> ('s, 'a) js) \<Rightarrow> ('s, 'a) js" where
  "try_catch m h = (\<lambda>s. case m s of (Inl e, s') \<Rightarrow> h e s' | (Inr x, s') \<Rightarrow> (Inr x, s'))"

definition try_finally :: "('s, 'a) js \<Rightarrow> ('s, unit) js \<Rightarrow> ('s, 'a) js" where
  "try_finally m fin =
     (\<lambda>s. case m s of
             (r, s') \<Rightarrow> (case fin s' of (Inl e, s'') \<Rightarrow> (Inl e, s'') | (Inr u, s'') \<Rightarrow> (r, s'')))"

text \<open>What every component can observe of the outside: the URLs handed to \<open>fetch\<close>, in
  order, and the labels written with \<open>console.error\<close>.\<close>

record world =
  requests :: "string list"
  console :: "string list"

text \<open>A response has the \<open>ok\<close> flag, the status and a body; \<open>response.json()\<close> rejects when
  the body is not JSON (\<open>None\<close>).\<close>

datatype 'b response = Response (ok: bool) (status: nat) (json_body: "'b option")

text \<open>The environment of a run: the configured base URL, the host's
  \<open>encodeURIComponent\<close> and \<open>String.prototype.trim\<close>, and the network: what \<open>fetch\<close> of a
  URL yields, \<open>None\<close> when the request itself fails (the promise rejects).\<close>

record 'b env =
  API_BASE :: string
  encodeURIComponent :: "string \<Rightarrow> string"
  trim :: "string \<Rightarrow> string"
  network :: "string \<Rightarrow> 'b response option"

definition fetch :: "'b env \<Rightarrow> string \<Rightarrow> ('s world_scheme, 'b response) js" where
  "fetch env url =
     (\<lambda>s. (case network env url of None \<Rightarrow> Inl NetworkFailure | Some r \<Rightarrow> Inr r,
            s\<lparr>requests := requests s @ [url]\<rparr>))"

definition response_json :: "'b response \<Rightarrow> ('s, 'b) js" where
  "response_json r = (case json_body r of None \<Rightarrow> js_throw InvalidJson | Some d \<Rightarrow> js_return d)"

definition console_error :: "string \<Rightarrow> ('s world_scheme, unit) js" where
  "console_error label = (\<lambda>s. (Inr (), s\<lparr>console := console s @ [label]\<rparr>))"

text \<open>A request fails when the network fails, the status is not \<open>ok\<close>, or the body is not
  JSON.\<close>

definition request_fails :: "'b env \<Rightarrow> string \<Rightarrow> bool" where
  "request_fails env url =
     (case network env url of
        None \<Rightarrow> True
      | Some r \<Rightarrow> \<not> ok r \<or> json_body r = None)"

text \<open>The body a request delivers when it does not fail.\<close>

definition delivered :: "'b env \<Rightarrow> string \<Rightarrow> 'b option" where
  "delivered env url =
     (case network env url of
        None \<Rightarrow> None
      | Some r \<Rightarrow> if ok r then json_body r else None)"


section \<open>SearchPage.js\<close>

text \<open>The API fetch utility: every failure is caught, logged and turned into \<open>null\<close>.\<close>

definition SearchPage_fetchData :: "'b env \<Rightarrow> string \<Rightarrow> ('s world_scheme, 'b option) js" where
  "SearchPage_fetchData env url =
     try_catch
       (js_bind (fetch env url) (\<lambda>response.
          if \<not> ok response then js_throw (HttpError (status response))
          else js_bind (response_json response) (\<lambda>data. js_return (Some data))))
       (\<lambda>error. js_bind (console_error ''Error fetching data:'') (\<lambda>_. js_return None))"

text \<open>Component state. The \<open>results\<close> state is \<open>null\<close> or an object with one slot per
  source and the derived \<open>mappingResults\<close>; a slot is \<open>Absent\<close> only if the object was
  spread from \<open>null\<close>. The state variable \<open>results\<close> is spelled \<open>results_state\<close>; the slots
  and loading flags carry the prefixes \<open>res_\<close> and \<open>lp_\<close>.\<close>

record search_results =
  res_combined :: "term_rec listing field"
  res_ayurveda :: "term_rec listing field"
  res_unani :: "term_rec listing field"
  res_siddha :: "term_rec listing field"
  res_icd11 :: "term_rec listing field"
  mappingResults :: "mapping list field"

record loading_progress =
  lp_combined :: bool
  lp_ayurveda :: bool
  lp_unani :: bool
  lp_siddha :: bool
  lp_icd11 :: bool
  lp_suggestions :: bool

record search_strategy =
  fuzzy :: bool
  fullText :: bool

record suggestion =
  sugg_name :: "string field"
  sugg_type :: string
  sugg_confidence :: "rat field"
  sugg_id :: "string field"
  sugg_system :: string
  sugg_definition :: "string field"

record search_page = world +
  results_state :: "search_results option"
  isSearching :: bool
  hasSearched :: bool
  suggestions :: "suggestion list"
  recommendations :: "suggestion list"
  loadingProgress :: loading_progress
  searchStrategy :: search_strategy

text \<open>\<open>{ results: [] }\<close>, and the object \<open>setResults\<close> is initialised and reset with.\<close>

definition results_only :: "'a list \<Rightarrow> 'a listing" where
  "results_only xs = \<lparr>results = Val xs, count = Absent, next_link = Absent, previous = Absent\<rparr>"

definition initial_results :: search_results where
  "initial_results =
     \<lparr>res_combined = Val (results_only []), res_ayurveda = Val (results_only []),
      res_unani = Val (results_only []), res_siddha = Val (results_only []),
      res_icd11 = Val (results_only []), mappingResults = Val []\<rparr>"

text \<open>\<open>{ ...prev }\<close>: spreading \<open>null\<close> gives an object without properties.\<close>

definition spread_results :: "search_results option \<Rightarrow> search_results" where
  "spread_results prev =
     (case prev of
        Some r \<Rightarrow> r
      | None \<Rightarrow> \<lparr>res_combined = Absent, res_ayurveda = Absent, res_unani = Absent,
                 res_siddha = Absent, res_icd11 = Absent, mappingResults = Absent\<rparr>)"

text \<open>\<open>data || { results: [] }\<close>.\<close>

definition or_empty_results :: "'a listing option \<Rightarrow> 'a listing" where
  "or_empty_results data = (case data of Some d \<Rightarrow> d | None \<Rightarrow> results_only [])"

text \<open>\<open>URLSearchParams.toString()\<close> for keys and values that need no escaping.\<close>

fun URLSearchParams_toString :: "(string \<times> string) list \<Rightarrow> string" where
  "URLSearchParams_toString [] = []"
| "URLSearchParams_toString [(k, v)] = k @ ''='' @ v"
| "URLSearchParams_toString ((k, v) # p # ps) = k @ ''='' @ v @ ''&'' @ URLSearchParams_toString (p # ps)"

definition buildSearchUrl :: "'b env \<Rightarrow> search_strategy \<Rightarrow> string \<Rightarrow> string \<Rightarrow> string" where
  "buildSearchUrl env strategy term endpoint =
     (let baseUrl = API_BASE env @ ''/terminologies/search/'' @ endpoint @ ''/?q=''
                      @ encodeURIComponent env term;
          params = (if fuzzy strategy then [(''fuzzy'', ''true''), (''threshold'', ''0.3'')] else [])
                   @ (if fullText strategy then [(''use_fts'', ''true'')] else [])
                   @ [(''page_size'', if endpoint = ''combined'' then ''20'' else ''15'')]
      in baseUrl @ ''&'' @ URLSearchParams_toString params)"

subsection \<open>Suggestion fetcher\<close>

definition toSuggestion :: "term_rec \<Rightarrow> suggestion" where
  "toSuggestion item =
     \<lparr>sugg_name = title item, sugg_type = ''combined'',
      sugg_confidence = num_or (search_score item) (Val (8 / 10)),
      sugg_id = item_id item, sugg_system = ''icd11'', sugg_definition = definition_text item\<rparr>"

definition suggestionsUrl :: "'b env \<Rightarrow> string \<Rightarrow> string" where
  "suggestionsUrl env term =
     API_BASE env @ ''/terminologies/search/combined/?q='' @ encodeURIComponent env term
       @ ''&fuzzy=true&threshold=0.4&page_size=8''"

definition fetchSuggestions :: "term_rec listing env \<Rightarrow> string \<Rightarrow> (search_page, unit) js" where
  "fetchSuggestions env term =
     (if term = [] \<or> length term < 2
      then set_state (\<lambda>s. s\<lparr>suggestions := [], recommendations := []\<rparr>)
      else
        try_finally
          (try_catch
             (js_bind (set_state (\<lambda>s. s\<lparr>loadingProgress := (loadingProgress s)\<lparr>lp_suggestions := True\<rparr>\<rparr>)) (\<lambda>_.
              js_bind (SearchPage_fetchData env (suggestionsUrl env term)) (\<lambda>data.
                case opt_results data of
                  Some rs \<Rightarrow>
                    (let allSuggestions = map toSuggestion rs
                     in set_state (\<lambda>s. s\<lparr>suggestions := allSuggestions,
                                           recommendations := js_slice allSuggestions 0 3\<rparr>))
                | None \<Rightarrow> js_return ())))
             (\<lambda>error.
                js_bind (console_error ''Error fetching suggestions:'') (\<lambda>_.
                set_state (\<lambda>s. s\<lparr>suggestions := [], recommendations := []\<rparr>))))
          (set_state (\<lambda>s. s\<lparr>loadingProgress := (loadingProgress s)\<lparr>lp_suggestions := False\<rparr>\<rparr>)))"

text \<open>The callback of the debounce timer that runs 150 ms after \<open>searchTerm\<close> changed.\<close>

definition suggestions_debounce :: "term_rec listing env \<Rightarrow> string \<Rightarrow> (search_page, unit) js" where
  "suggestions_debounce env searchTerm =
     (if length searchTerm \<ge> 2 then fetchSuggestions env searchTerm
      else set_state (\<lambda>s. s\<lparr>suggestions := [], recommendations := []\<rparr>))"

subsection \<open>Search handler\<close>

text \<open>\<open>setResults(prev => ({ ...prev, [key]: value }))\<close> and
  \<open>setLoadingProgress(prev => ({ ...prev, [key]: flag }))\<close> for the keys the code uses.\<close>

definition set_result_slot :: "string \<Rightarrow> term_rec listing \<Rightarrow> search_results \<Rightarrow> search_results" where
  "set_result_slot key v r =
     (if key = ''combined'' then r\<lparr>res_combined := Val v\<rparr>
      else if key = ''ayurveda'' then r\<lparr>res_ayurveda := Val v\<rparr>
      else if key = ''unani'' then r\<lparr>res_unani := Val v\<rparr>
      else if key = ''siddha'' then r\<lparr>res_siddha := Val v\<rparr>
      else if key = ''icd11'' then r\<lparr>res_icd11 := Val v\<rparr>
      else r)"

definition set_loading :: "string \<Rightarrow> bool \<Rightarrow> loading_progress \<Rightarrow> loading_progress" where
  "set_loading key b lp =
     (if key = ''combined'' then lp\<lparr>lp_combined := b\<rparr>
      else if key = ''ayurveda'' then lp\<lparr>lp_ayurveda := b\<rparr>
      else if key = ''unani'' then lp\<lparr>lp_unani := b\<rparr>
      else if key = ''siddha'' then lp\<lparr>lp_siddha := b\<rparr>
      else if key = ''icd11'' then lp\<lparr>lp_icd11 := b\<rparr>
      else if key = ''suggestions'' then lp\<lparr>lp_suggestions := b\<rparr>
      else lp)"

definition setLoadingProgress :: "string \<Rightarrow> bool \<Rightarrow> (search_page, unit) js" where
  "setLoadingProgress key b = set_state (\<lambda>s. s\<lparr>loadingProgress := set_loading key b (loadingProgress s)\<rparr>)"

definition traditionalSystems :: "'b env \<Rightarrow> string \<Rightarrow> (string \<times> string) list" where
  "traditionalSystems env term =
     [(''ayurveda'', API_BASE env @ ''/terminologies/ayurveda/search/?q='' @ encodeURIComponent env term
                      @ ''&threshold=0.2&page_size=12''),
      (''unani'', API_BASE env @ ''/terminologies/unani/search/?q='' @ encodeURIComponent env term
                   @ ''&threshold=0.2&page_size=12''),
      (''siddha'', API_BASE env @ ''/terminologies/siddha/search/?q='' @ encodeURIComponent env term
                    @ ''&threshold=0.2&page_size=12'')]"

text \<open>The async callback of \<open>traditionalSystems.forEach\<close>, for one system.\<close>

definition loadTraditionalSystem :: "term_rec listing env \<Rightarrow> string \<times> string \<Rightarrow> (search_page, unit) js" where
  "loadTraditionalSystem env system =
     js_bind (setLoadingProgress (fst system) True) (\<lambda>_.
     js_bind (SearchPage_fetchData env (snd system)) (\<lambda>systemData.
     js_bind (set_state (\<lambda>s. s\<lparr>results_state :=
                Some (set_result_slot (fst system) (or_empty_results systemData)
                        (spread_results (results_state s)))\<rparr>)) (\<lambda>_.
     setLoadingProgress (fst system) False)))"

text \<open>
  \<open>performSearch\<close>. The handler awaits the combined and the ICD-11 request; the three
  callbacks of \<open>forEach\<close> are started and not awaited, so the handler returns them as the
  tasks that are still pending when its own promise settles. The parameters \<open>system\<close> and
  \<open>confidence\<close> are not read by the body.
\<close>

definition performSearch ::
  "term_rec listing env \<Rightarrow> string \<Rightarrow> (search_page, (string \<times> string) list) js" where
  "performSearch env term =
     (if term = [] \<or> trim env term = [] then js_return []
      else
        js_bind (set_state (\<lambda>s. s\<lparr>isSearching := True\<rparr>)) (\<lambda>_.
        js_bind (set_state (\<lambda>s. s\<lparr>results_state := Some initial_results\<rparr>)) (\<lambda>_.
        try_finally
          (try_catch
             (js_bind (setLoadingProgress ''combined'' True) (\<lambda>_.
              js_bind js_get (\<lambda>s0.
              js_bind (SearchPage_fetchData env (buildSearchUrl env (searchStrategy s0) term ''combined'')) (\<lambda>combinedData.
              js_bind (set_state (\<lambda>s. s\<lparr>results_state :=
                         Some ((spread_results (results_state s))
                                 \<lparr>res_combined := Val (or_empty_results combinedData),
                                  mappingResults := Val (deriveMappingResults combinedData)\<rparr>)\<rparr>)) (\<lambda>_.
              js_bind (setLoadingProgress ''combined'' False) (\<lambda>_.
              js_bind (set_state (\<lambda>s. s\<lparr>hasSearched := True\<rparr>)) (\<lambda>_.
              js_bind (setLoadingProgress ''icd11'' True) (\<lambda>_.
              js_bind (SearchPage_fetchData env (buildSearchUrl env (searchStrategy s0) term ''icd11'')) (\<lambda>icd11Data.
              js_bind (set_state (\<lambda>s. s\<lparr>results_state :=
                         Some ((spread_results (results_state s))
                                 \<lparr>res_icd11 := Val (or_empty_results icd11Data)\<rparr>)\<rparr>)) (\<lambda>_.
              js_bind (setLoadingProgress ''icd11'' False) (\<lambda>_.
              js_return (traditionalSystems env term))))))))))))
             (\<lambda>error.
                js_bind (console_error ''Search error:'') (\<lambda>_.
                js_bind (set_state (\<lambda>s. s\<lparr>results_state := Some initial_results\<rparr>)) (\<lambda>_.
                js_return []))))
          (set_state (\<lambda>s. s\<lparr>isSearching := False\<rparr>)))))"

text \<open>The pending callbacks run to completion. Each one writes only its own slot and its
  own loading flag, through updater functions, so the order in which the three responses
  arrive does not change the state they leave; they are run in the order they were
  started.\<close>

fun run_tasks :: "term_rec listing env \<Rightarrow> (string \<times> string) list \<Rightarrow> (search_page, unit) js" where
  "run_tasks env [] = js_return ()"
| "run_tasks env (t # ts) = js_bind (loadTraditionalSystem env t) (\<lambda>_. run_tasks env ts)"

definition performSearch_settled :: "term_rec listing env \<Rightarrow> string \<Rightarrow> (search_page, unit) js" where
  "performSearch_settled env term = js_bind (performSearch env term) (run_tasks env)"


section \<open>SystemPage (src/unnamed/part_001)\<close>

definition SystemPage_fetchData :: "'b env \<Rightarrow> string \<Rightarrow> ('s world_scheme, 'b option) js" where
  "SystemPage_fetchData env url =
     try_catch
       (js_bind (fetch env url) (\<lambda>res.
          if \<not> ok res then js_throw (HttpError (status res))
          else js_bind (response_json res) (\<lambda>d. js_return (Some d))))
       (\<lambda>e. js_bind (console_error ''fetch error'') (\<lambda>_. js_return None))"

text \<open>The user object of the authentication service, \<open>null\<close> when nobody is signed
  in.\<close>

record user =
  displayName :: "string field"
  email :: "string field"

text \<open>A body the per-system endpoints may answer with: an object (with or without a
  \<open>results\<close> array) or a bare array.\<close>

datatype 'a payload = ObjectBody "'a listing" | ArrayBody "'a list"

text \<open>Component state, with what the user is shown outside the page: the \<open>alert\<close>
  messages, and how often the hidden file input was clicked (the file picker opened).
  The state variables \<open>results\<close> and \<open>currentPage\<close> are spelled \<open>results_list\<close> and
  \<open>currentPage_state\<close>; the fields \<open>suggestions\<close> and \<open>isSearching\<close> exist in the search page
  too and are written with the record's name.\<close>

record system_page = world +
  results_list :: "term_rec list"
  isSearching :: bool
  currentPage_state :: int
  showSuggestions :: bool
  currentUser :: "user option"
  userChecked :: bool
  uploading :: bool
  alerts :: "string list"
  filePickerClicks :: nat
  allSuggestions :: "string list"
  suggestions :: "string list"
  suggTotal :: nat
  suggTotalPages :: int
  suggLoading :: bool

text \<open>The property \<open>systemName\<close> selects an entry of the table \<open>systemData\<close>; of an entry,
  the three endpoints are modelled. ICD-11 and the mappings have no CSV endpoint, and the
  mappings have no autocomplete endpoint (\<open>null\<close>).\<close>

datatype system_name = Ayurveda | Siddha | Unani | Icd11 | Mappings

definition searchEp :: "'b env \<Rightarrow> system_name \<Rightarrow> string" where
  "searchEp env n =
     (case n of
        Ayurveda \<Rightarrow> API_BASE env @ ''/terminologies/ayurveda/search/?q=''
      | Siddha \<Rightarrow> API_BASE env @ ''/terminologies/siddha/search/?q=''
      | Unani \<Rightarrow> API_BASE env @ ''/terminologies/unani/search/?q=''
      | Icd11 \<Rightarrow> API_BASE env @ ''/terminologies/icd11/search/?fuzzy=true&q=''
      | Mappings \<Rightarrow> API_BASE env @ ''/terminologies/mappings/?system='')"

definition csvEp :: "'b env \<Rightarrow> system_name \<Rightarrow> string field" where
  "csvEp env n =
     (case n of
        Ayurveda \<Rightarrow> Val (API_BASE env @ ''/terminologies/ayurveda/csv/upload/'')
      | Siddha \<Rightarrow> Val (API_BASE env @ ''/terminologies/siddha/csv/upload/'')
      | Unani \<Rightarrow> Val (API_BASE env @ ''/terminologies/unani/csv/upload/'')
      | Icd11 \<Rightarrow> Null
      | Mappings \<Rightarrow> Null)"

definition autoEp :: "'b env \<Rightarrow> system_name \<Rightarrow> string field" where
  "autoEp env n =
     (case n of
        Ayurveda \<Rightarrow> Val (API_BASE env @ ''/terminologies/ayurveda/autocomplete/?q='')
      | Siddha \<Rightarrow> Val (API_BASE env @ ''/terminologies/siddha/autocomplete/?q='')
      | Unani \<Rightarrow> Val (API_BASE env @ ''/terminologies/unani/autocomplete/?q='')
      | Icd11 \<Rightarrow> Val (API_BASE env @ ''/terminologies/icd11/autocomplete/?q='')
      | Mappings \<Rightarrow> Null)"

definition suggPerPage :: int where
  "suggPerPage = 10"

subsection \<open>Upload gate\<close>

text \<open>\<open>currentUser?.displayName\<close> and \<open>currentUser?.email\<close>.\<close>

definition opt_displayName :: "user option \<Rightarrow> string field" where
  "opt_displayName u = (case u of None \<Rightarrow> Absent | Some x \<Rightarrow> displayName x)"

definition opt_email :: "user option \<Rightarrow> string field" where
  "opt_email u = (case u of None \<Rightarrow> Absent | Some x \<Rightarrow> email x)"

definition isAdmin :: "system_page \<Rightarrow> bool" where
  "isAdmin s = (opt_displayName (currentUser s) = Val ''root''
                \<and> opt_email (currentUser s) = Val ''root@gmail.com'')"

definition isLoggedIn :: "system_page \<Rightarrow> bool" where
  "isLoggedIn s = (currentUser s \<noteq> None)"

definition getUploadIconTitle :: "system_page \<Rightarrow> string" where
  "getUploadIconTitle s =
     (if \<not> userChecked s then ''Checking authentication...''
      else if \<not> isLoggedIn s then ''Please log in to upload files''
      else if \<not> isAdmin s then ''Only admin can upload files''
      else ''Upload CSV to update database'')"

definition getUploadIconClass :: "system_page \<Rightarrow> string" where
  "getUploadIconClass s =
     (if \<not> userChecked s \<or> uploading s then ''upload-icon checking''
      else if \<not> isLoggedIn s \<or> \<not> isAdmin s then ''upload-icon disabled''
      else ''upload-icon'')"

definition alert :: "string \<Rightarrow> (system_page, unit) js" where
  "alert msg = set_state (\<lambda>s. s\<lparr>alerts := alerts s @ [msg]\<rparr>)"

text \<open>The click handler of the upload icon; \<open>fileInputRef.current?.click()\<close> opens the
  file picker.\<close>

definition handleFilePick :: "(system_page, unit) js" where
  "handleFilePick =
     js_bind js_get (\<lambda>s.
       if \<not> userChecked s then alert ''Please wait while we check your authentication status...''
       else if \<not> isLoggedIn s then alert ''Please log in to upload files''
       else if \<not> isAdmin s then alert ''Only admin users can upload files''
       else set_state (\<lambda>s. s\<lparr>filePickerClicks := filePickerClicks s + 1\<rparr>))"

text \<open>The upload icon in the rendered page: \<open>system.csvEp && <img className=... title=... />\<close>,
  as the pair of its class and its tooltip, or nothing.\<close>

definition upload_icon :: "'b env \<Rightarrow> system_name \<Rightarrow> system_page \<Rightarrow> (string \<times> string) option" where
  "upload_icon env systemName s =
     (if truthy_str (csvEp env systemName)
      then Some (getUploadIconClass s, getUploadIconTitle s)
      else None)"

subsection \<open>Suggestion fetcher\<close>

definition updateDisplayedSuggestions :: "string list \<Rightarrow> int \<Rightarrow> (system_page, unit) js" where
  "updateDisplayedSuggestions allData page =
     (let start = (page - 1) * suggPerPage;
          fin = start + suggPerPage
      in set_state (\<lambda>s. s\<lparr>system_page.suggestions := js_slice allData start fin\<rparr>))"

definition clearSuggestions :: "(system_page, unit) js" where
  "clearSuggestions =
     set_state (\<lambda>s. s\<lparr>allSuggestions := [], system_page.suggestions := [],
                        suggTotal := 0, suggTotalPages := 1\<rparr>)"

text \<open>The URL \<open>`${system.autoEp}${encodeURIComponent(term)}&limit=1000`\<close>.\<close>

definition autocompleteUrl :: "'b env \<Rightarrow> system_name \<Rightarrow> string \<Rightarrow> string" where
  "autocompleteUrl env systemName term =
     template_str (autoEp env systemName) @ encodeURIComponent env term @ ''&limit=1000''"

definition fetchAllSuggestions ::
  "string payload env \<Rightarrow> system_name \<Rightarrow> string \<Rightarrow> (system_page, unit) js" where
  "fetchAllSuggestions env systemName term =
     (if term = [] \<or> length term < 2 then clearSuggestions
      else
        js_bind (set_state (\<lambda>s. s\<lparr>suggLoading := True\<rparr>)) (\<lambda>_.
        try_finally
          (try_catch
             (js_bind (SystemPage_fetchData env (autocompleteUrl env systemName term)) (\<lambda>d.
                let allData = (case d of
                                 Some (ObjectBody b) \<Rightarrow> (case results b of Val rs \<Rightarrow> rs | Absent \<Rightarrow> [] | Null \<Rightarrow> [])
                               | Some (ArrayBody xs) \<Rightarrow> xs
                               | None \<Rightarrow> [])
                in js_bind (set_state (\<lambda>s. s\<lparr>allSuggestions := allData\<rparr>)) (\<lambda>_.
                   js_bind (set_state (\<lambda>s. s\<lparr>suggTotal := length allData\<rparr>)) (\<lambda>_.
                   js_bind (set_state (\<lambda>s. s\<lparr>suggTotalPages :=
                              Math_ceil (of_nat (length allData) / of_int suggPerPage)\<rparr>)) (\<lambda>_.
                   updateDisplayedSuggestions allData 1)))))
             (\<lambda>error. js_bind (console_error ''Error fetching suggestions:'') (\<lambda>_. clearSuggestions)))
          (set_state (\<lambda>s. s\<lparr>suggLoading := False\<rparr>))))"


subsection \<open>Search\<close>

text \<open>\<open>handleSearch\<close>, with the \<open>searchTerm\<close> of the render it was created in.\<close>

definition handleSearch :: "term_rec payload env \<Rightarrow> system_name \<Rightarrow> string \<Rightarrow> (system_page, unit) js" where
  "handleSearch env systemName searchTerm =
     (if trim env searchTerm = [] then js_return ()
      else
        js_bind (set_state (\<lambda>s. s\<lparr>system_page.isSearching := True\<rparr>)) (\<lambda>_.
        js_bind (set_state (\<lambda>s. s\<lparr>currentPage_state := 1\<rparr>)) (\<lambda>_.
        try_finally
          (try_catch
             (js_bind (SystemPage_fetchData env
                         (searchEp env systemName @ encodeURIComponent env searchTerm)) (\<lambda>d.
                let res = (case d of
                             Some (ObjectBody b) \<Rightarrow> (case results b of Val rs \<Rightarrow> rs | Absent \<Rightarrow> [] | Null \<Rightarrow> [])
                           | Some (ArrayBody xs) \<Rightarrow> xs
                           | None \<Rightarrow> [])
                in set_state (\<lambda>s. s\<lparr>results_list := res\<rparr>)))
             (\<lambda>error.
                js_bind (console_error ''Search error:'') (\<lambda>_.
                set_state (\<lambda>s. s\<lparr>results_list := []\<rparr>))))
          (js_bind (set_state (\<lambda>s. s\<lparr>system_page.isSearching := False\<rparr>)) (\<lambda>_.
           set_state (\<lambda>s. s\<lparr>showSuggestions := False\<rparr>))))))"


section \<open>MappingDetailsPage.js: fetching\<close>

text \<open>The module keeps a cache of bodies by URL.\<close>

record 'b mapping_details_page = world +
  apiCache :: "string \<Rightarrow> 'b option"

definition MappingDetailsPage_fetchData ::
  "'b env \<Rightarrow> string \<Rightarrow> bool \<Rightarrow> ('b mapping_details_page, 'b option) js" where
  "MappingDetailsPage_fetchData env url useCache =
     (\<lambda>s. if useCache \<and> apiCache s url \<noteq> None then (Inr (apiCache s url), s)
          else
            try_catch
              (js_bind (fetch env url) (\<lambda>response.
                 if \<not> ok response then js_throw (HttpError (status response))
                 else js_bind (response_json response) (\<lambda>d.
                      js_bind (if useCache then set_state (\<lambda>s. s\<lparr>apiCache := (apiCache s)(url \<mapsto> d)\<rparr>)
                               else js_return ()) (\<lambda>_.
                      js_return (Some d)))))
              (\<lambda>error. js_bind (console_error ''Error fetching data:'') (\<lambda>_. js_return None)) s)"

text \<open>Decimal digits of a number in a template string.\<close>

fun string_of_nat :: "nat \<Rightarrow> string" where
  "string_of_nat n =
     (if n < 10 then [char_of (48 + n)]
      else string_of_nat (n div 10) @ [char_of (48 + n mod 10)])"

definition empty_page :: "'a listing" where
  "empty_page = \<lparr>results = Val [], count = Val 0, next_link = Null, previous = Null\<rparr>"

text \<open>\<open>data.results || []\<close> and \<open>data.count || 0\<close>.\<close>

definition results_or_empty :: "'a list field \<Rightarrow> 'a list" where
  "results_or_empty r = (case r of Val rs \<Rightarrow> rs | Absent \<Rightarrow> [] | Null \<Rightarrow> [])"

definition count_or_zero :: "nat field \<Rightarrow> nat" where
  "count_or_zero c = (case c of Val n \<Rightarrow> n | Absent \<Rightarrow> 0 | Null \<Rightarrow> 0)"

text \<open>\<open>fetchPaginatedData(baseUrl, searchTerm, system, page, pageSize)\<close>; \<open>system\<close> is a
  string or \<open>null\<close>.\<close>

definition paginatedUrl :: "'b env \<Rightarrow> string \<Rightarrow> string \<Rightarrow> string option \<Rightarrow> nat \<Rightarrow> nat \<Rightarrow> string option" where
  "paginatedUrl env baseUrl searchTerm system page pageSize =
     (if system = Some ''combined''
      then Some (baseUrl @ ''/terminologies/search/combined/?q='' @ encodeURIComponent env searchTerm
                   @ ''&fuzzy=true&threshold=0.2&use_fts=true&page='' @ string_of_nat page
                   @ ''&page_size='' @ string_of_nat pageSize)
      else if system = Some ''icd11''
      then Some (baseUrl @ ''/terminologies/icd11/search/?q='' @ encodeURIComponent env searchTerm
                   @ ''&fuzzy=true&threshold=0.2&page='' @ string_of_nat page
                   @ ''&page_size='' @ string_of_nat pageSize)
      else (case system of
              Some sys \<Rightarrow>
                if sys \<noteq> []
                then Some (baseUrl @ ''/terminologies/'' @ sys @ ''/search/?q='' @ encodeURIComponent env searchTerm
                             @ ''&threshold=0.2&page='' @ string_of_nat page
                             @ ''&page_size='' @ string_of_nat pageSize)
                else None
            | None \<Rightarrow> None))"

definition fetchPaginatedData ::
  "'a listing env \<Rightarrow> string \<Rightarrow> string \<Rightarrow> string option \<Rightarrow> nat \<Rightarrow> nat
     \<Rightarrow> ('a listing mapping_details_page, 'a listing) js" where
  "fetchPaginatedData env baseUrl searchTerm system page pageSize =
     (case paginatedUrl env baseUrl searchTerm system page pageSize of
        None \<Rightarrow> js_return empty_page
      | Some url \<Rightarrow>
          try_catch
            (js_bind (MappingDetailsPage_fetchData env url True) (\<lambda>d.
               case d of
                 Some b \<Rightarrow> js_return \<lparr>results = Val (results_or_empty (results b)),
                                       count = Val (count_or_zero (count b)),
                                       next_link = next_link b, previous = previous b\<rparr>
               | None \<Rightarrow> js_return empty_page))
            (\<lambda>error.
               js_bind (console_error (''Error fetching '' @ template_str (case system of Some sys \<Rightarrow> Val sys | None \<Rightarrow> Null)
                                        @ '' data:'')) (\<lambda>_.
               js_return empty_page)))"

text \<open>\<open>fetchAllPagesForSystem\<close>: the loop
  \<open>while (hasMore && page <= maxPages)\<close> over the variables \<open>allResults\<close>, \<open>page\<close> and
  \<open>hasMore\<close>, with \<open>pageSize = 50\<close>.\<close>

definition detail_pageSize :: nat where
  "detail_pageSize = 50"

function fetchAllPages_loop ::
  "'a listing env \<Rightarrow> string \<Rightarrow> string \<Rightarrow> string option \<Rightarrow> nat \<Rightarrow> 'a list \<Rightarrow> nat \<Rightarrow> bool
     \<Rightarrow> ('a listing mapping_details_page, 'a list) js" where
  "fetchAllPages_loop env baseUrl searchTerm system maxPages allResults page hasMore s =
     (if hasMore \<and> page \<le> maxPages
      then (case fetchPaginatedData env baseUrl searchTerm system page detail_pageSize s of
              (Inl e, s') \<Rightarrow> (Inl e, s')
            | (Inr d, s') \<Rightarrow>
                if length (results_or_empty (results d)) > 0
                then fetchAllPages_loop env baseUrl searchTerm system maxPages
                       (allResults @ results_or_empty (results d)) (page + 1)
                       (truthy_str (next_link d)) s'
                else fetchAllPages_loop env baseUrl searchTerm system maxPages allResults page False s')
      else (Inr allResults, s))"
  by pat_completeness auto
termination
  by (relation "measure (\<lambda>(env, baseUrl, searchTerm, system, maxPages, allResults, page, hasMore, s).
                  if hasMore then Suc (Suc maxPages - page) else 0)") auto

definition fetchAllPagesForSystem ::
  "'a listing env \<Rightarrow> string \<Rightarrow> string \<Rightarrow> string option \<Rightarrow> nat
     \<Rightarrow> ('a listing mapping_details_page, 'a listing) js" where
  "fetchAllPagesForSystem env baseUrl searchTerm system maxPages =
     js_bind (fetchAllPages_loop env baseUrl searchTerm system maxPages [] 1 True) (\<lambda>allResults.
     js_return \<lparr>results = Val allResults, count = Val (length allResults),
                next_link = Absent, previous = Absent\<rparr>)"

text \<open>The default of the parameter \<open>maxPages\<close>, which the detail aggregator relies on.\<close>

definition default_maxPages :: nat where
  "default_maxPages = 3"

text \<open>The assumption on the server that a bound on the number of items needs: of the
  pages that \<open>fetchAllPagesForSystem\<close> asks for (the URLs of \<open>fetchPaginatedData\<close> for this
  base URL, term and system with \<open>page_size=50\<close>), none that the server delivers and none
  that is already in the cache holds more than \<open>n\<close> items. Nothing is assumed about the
  answers to any other request.\<close>

definition pages_within ::
  "nat \<Rightarrow> 'a listing env \<Rightarrow> string \<Rightarrow> string \<Rightarrow> string option
     \<Rightarrow> 'a listing mapping_details_page \<Rightarrow> bool" where
  "pages_within n env baseUrl searchTerm system s =
     (\<forall>page url b.
        paginatedUrl env baseUrl searchTerm system page detail_pageSize = Some url
        \<and> (delivered env url = Some b \<or> apiCache s url = Some b)
        \<longrightarrow> length (results_or_empty (results b)) \<le> n)"


section \<open>SystemResultsPage.jsx: fetching\<close>

record system_results_page = world +
  data_state :: "term_rec listing option"
  isLoading :: bool

definition systemResultsUrl :: "'b env \<Rightarrow> string \<Rightarrow> string \<Rightarrow> string" where
  "systemResultsUrl env system searchTerm =
     (if system = ''combined''
      then API_BASE env @ ''/terminologies/search/combined/?q='' @ encodeURIComponent env searchTerm
             @ ''&fuzzy=true&threshold=0.2&page_size=100''
      else if system = ''icd11''
      then API_BASE env @ ''/terminologies/icd11/search/?q='' @ encodeURIComponent env searchTerm
             @ ''&fuzzy=true&threshold=0.2&page_size=100''
      else API_BASE env @ ''/terminologies/'' @ system @ ''/search/?q='' @ encodeURIComponent env searchTerm
             @ ''&threshold=0.1'')"

text \<open>The function \<open>get\<close> of the data-fetch effect. \<open>console.error(e)\<close> writes the error
  object alone; the console log keeps the entry \<open>error\<close> for it.\<close>

definition SystemResultsPage_get ::
  "term_rec listing env \<Rightarrow> string \<Rightarrow> string \<Rightarrow> (system_results_page, unit) js" where
  "SystemResultsPage_get env system searchTerm =
     js_bind (set_state (\<lambda>s. s\<lparr>isLoading := True\<rparr>)) (\<lambda>_.
     try_finally
       (try_catch
          (js_bind (fetch env (systemResultsUrl env system searchTerm)) (\<lambda>res.
             if \<not> ok res then js_throw (HttpError (status res))
             else js_bind (response_json res) (\<lambda>json.
                  set_state (\<lambda>s. s\<lparr>data_state := Some json\<rparr>))))
          (\<lambda>e. js_bind (console_error ''error'') (\<lambda>_.
                set_state (\<lambda>s. s\<lparr>data_state :=
                  Some \<lparr>results = Val [], count = Val 0, next_link = Absent, previous = Absent\<rparr>\<rparr>))))
       (set_state (\<lambda>s. s\<lparr>isLoading := False\<rparr>)))"


section \<open>Example inputs\<close>

text \<open>A complete last page of a server listing holding the items \<open>xs\<close>.\<close>

definition listing_of :: "'a list \<Rightarrow> 'a listing" where
  "listing_of xs = \<lparr>results = Val xs, count = Val (length xs), next_link = Null, previous = Null\<rparr>"

text \<open>A term that has only the two name fields.\<close>

definition named_term :: "string field \<Rightarrow> string field \<Rightarrow> term_rec" where
  "named_term en ti =
     \<lparr>item_id = Absent, code = Absent, title = ti, english_name = en, definition_text = Absent,
      class_kind = Absent, foundation_uri = Absent, search_score = Absent, mapping_info = Absent,
      related_ayurveda = Absent, related_siddha = Absent, related_unani = Absent\<rparr>"

text \<open>Lower-casing of the letters A to Z, as \<open>toLowerCase\<close> does on ASCII text.\<close>

definition ascii_toLowerCase :: "string \<Rightarrow> string" where
  "ascii_toLowerCase str =
     map (\<lambda>c. if 65 \<le> (of_char c :: nat) \<and> (of_char c :: nat) \<le> 90
               then char_of ((of_char c :: nat) + 32) else c) str"

text \<open>An environment over a given network: the default base URL, an encoder that leaves
  its argument as it is (as \<open>encodeURIComponent\<close> does on letters and digits) and a
  \<open>trim\<close> that strips blanks.\<close>

definition example_env :: "(string \<Rightarrow> 'b response option) \<Rightarrow> 'b env" where
  "example_env net =
     \<lparr>API_BASE = ''http://localhost:8000'', encodeURIComponent = (\<lambda>s. s),
      trim = (\<lambda>s. rev (dropWhile (\<lambda>c. c = CHR '' '') (rev (dropWhile (\<lambda>c. c = CHR '' '') s)))),
      network = net\<rparr>"

text \<open>A network on which every request fails, and a server that answers every page
  request with \<open>k\<close> items and a link to a next page.\<close>

definition offline :: "string \<Rightarrow> 'b response option" where
  "offline url = None"

definition every_page :: "nat \<Rightarrow> string \<Rightarrow> unit listing response option" where
  "every_page k url =
     Some (Response True 200
       (Some \<lparr>results = Val (replicate k ()), count = Val 1000, next_link = Val ''more'',
              previous = Null\<rparr>))"

text \<open>A server that honours \<open>page_size=50\<close>, the page size of the background loop, and
  puts 100 items on the page of any other request.\<close>

definition honouring_server :: "string \<Rightarrow> unit listing response option" where
  "honouring_server url =
     Some (Response True 200
       (Some \<lparr>results = Val (replicate (if drop (length url - 12) url = ''page_size=50''
                                           then 50 else 100) ()),
              count = Val 1000, next_link = Val ''more'', previous = Null\<rparr>))"

text \<open>The components right after mounting (the initial values of their state).\<close>

definition fresh_search_page :: search_page where
  "fresh_search_page =
     \<lparr>requests = [], console = [], results_state = None, isSearching = False, hasSearched = False,
      suggestions = [], recommendations = [],
      loadingProgress = \<lparr>lp_combined = False, lp_ayurveda = False, lp_unani = False,
                          lp_siddha = False, lp_icd11 = False, lp_suggestions = False\<rparr>,
      searchStrategy = \<lparr>fuzzy = True, fullText = False\<rparr>\<rparr>"

definition fresh_system_page :: system_page where
  "fresh_system_page =
     \<lparr>requests = [], console = [], results_list = [], isSearching = False, currentPage_state = 1,
      showSuggestions = False, currentUser = None, userChecked = False, uploading = False,
      alerts = [], filePickerClicks = 0, allSuggestions = [], suggestions = [], suggTotal = 0,
      suggTotalPages = 1, suggLoading = False\<rparr>"

definition fresh_details :: "'b mapping_details_page" where
  "fresh_details = \<lparr>requests = [], console = [], apiCache = (\<lambda>url. None)\<rparr>"

definition fresh_system_results_page :: system_results_page where
  "fresh_system_results_page = \<lparr>requests = [], console = [], data_state = None, isLoading = True\<rparr>"

definition root_user :: user where
  "root_user = \<lparr>displayName = Val ''root'', email = Val ''root@gmail.com''\<rparr>"



section \<open>Verified properties: pagination\<close>

lemma js_slice_length:
  assumes "0 \<le> a" "a \<le> int (length xs)" "a \<le> b"
  shows "int (length (js_slice xs a b)) = min (b - a) (int (length xs) - a)"
  using assms by (auto simp: js_slice_def Let_def min_def)

lemma Math_ceil_div: "Math_ceil (of_nat N / of_int P) = - (- int N div P)"
proof -
  have "(of_nat N / of_int P :: rat) = of_int (int N) / of_int P" by simp
  then show ?thesis unfolding Math_ceil_def by (simp only: ceiling_divide_eq_div)
qed

lemma real_ceil_div: "\<lceil>real N / real_of_int P\<rceil> = - (- int N div P)"
proof -
  have "(real N / real_of_int P) = of_int (int N) / of_int P" by simp
  then show ?thesis by (simp only: ceiling_divide_eq_div)
qed

lemma Math_ceil_real: "Math_ceil (of_nat N / of_int P) = \<lceil>real N / real_of_int P\<rceil>"
  by (simp only: Math_ceil_div real_ceil_div)

lemma page_start_in_range:
  assumes "0 < P" "k \<le> \<lceil>real N / real_of_int P\<rceil>"
  shows "(k - 1) * P < int N"
proof -
  have "k - 1 < \<lceil>real N / real_of_int P\<rceil>" using assms(2) by simp
  then have "of_int (k - 1) < real N / real_of_int P" by (simp only: less_ceiling_iff)
  then have "of_int (k - 1) * real_of_int P < real N" using assms(1) by (simp add: pos_less_divide_eq)
  then have "real_of_int ((k - 1) * P) < of_int (int N)" by simp
  then show ?thesis by (simp only: of_int_less_iff)
qed

lemma page_slice_length:
  assumes "0 < P" "1 \<le> k" "k \<le> \<lceil>real (length xs) / real_of_int P\<rceil>"
  shows "int (length (js_slice xs ((k - 1) * P) ((k - 1) * P + P))) = min P (int (length xs) - (k - 1) * P)"
proof -
  have lt: "(k - 1) * P < int (length xs)" using assms(1,3) by (rule page_start_in_range)
  have ge: "0 \<le> (k - 1) * P" using assms(1,2) by simp
  have "int (length (js_slice xs ((k - 1) * P) ((k - 1) * P + P)))
        = min ((k - 1) * P + P - (k - 1) * P) (int (length xs) - (k - 1) * P)"
    using ge lt assms(1) by (intro js_slice_length) auto
  then show ?thesis by simp
qed

lemma total_pages_listing:
  fixes data :: "('a, 'm) listing_scheme"
  assumes "results data = Val xs"
  shows "getTotalPages P (Some data) = \<lceil>real (length xs) / real_of_int P\<rceil>"
    and "SystemResultsPage_totalPages P (Some data) = \<lceil>real (length xs) / real_of_int P\<rceil>"
  using assms
  by (simp_all add: getTotalPages_def SystemResultsPage_totalPages_def opt_results_def Math_ceil_real)

lemma page_slice_listing:
  fixes data :: "('a, 'm) listing_scheme"
  assumes "results data = Val xs" "0 < P" "1 \<le> k" "k \<le> \<lceil>real (length xs) / real_of_int P\<rceil>"
  shows "int (length (getCurrentPageData k P (Some data))) = min P (int (length xs) - (k - 1) * P)"
    and "int (length (pageData k P (Some data))) = min P (int (length xs) - (k - 1) * P)"
proof -
  have ne: "length xs \<noteq> 0"
  proof
    assume "length xs = 0"
    then have "\<lceil>real (length xs) / real_of_int P\<rceil> = 0" by simp
    with assms(3,4) show False by simp
  qed
  have opt: "opt_results (Some data) = Some xs" using assms(1) by (simp add: opt_results_def)
  have s: "int (length (js_slice xs ((k - 1) * P) ((k - 1) * P + P))) = min P (int (length xs) - (k - 1) * P)"
    using assms(2,3,4) by (rule page_slice_length)
  show "int (length (getCurrentPageData k P (Some data))) = min P (int (length xs) - (k - 1) * P)"
    using ne s by (simp add: getCurrentPageData_def opt Let_def)
  show "int (length (pageData k P (Some data))) = min P (int (length xs) - (k - 1) * P)"
    using ne s by (simp add: pageData_def opt Let_def)
qed

lemma page_slice_SystemPage:
  assumes "1 \<le> k" "k \<le> \<lceil>real (length xs) / real_of_int resultsPerPage\<rceil>"
  shows "int (length (currentResults k xs)) = min resultsPerPage (int (length xs) - (k - 1) * resultsPerPage)"
proof -
  have pos: "0 < resultsPerPage" by (simp add: resultsPerPage_def)
  have "int (length (js_slice xs ((k - 1) * resultsPerPage) ((k - 1) * resultsPerPage + resultsPerPage)))
        = min resultsPerPage (int (length xs) - (k - 1) * resultsPerPage)"
    using pos assms by (rule page_slice_length)
  moreover have "(k - 1) * resultsPerPage + resultsPerPage = k * resultsPerPage"
    by (simp add: algebra_simps)
  ultimately show ?thesis by (simp add: currentResults_def)
qed

text \<open>
  Claim C1. For a result array \<open>xs\<close> of length \<open>N\<close> and a positive page size \<open>P\<close>, each of
  the three pagination helpers (MappingDetailsPage, SystemResultsPage, and SystemPage with
  its fixed \<open>resultsPerPage\<close>) reports \<open>ceil(N / P)\<close> total pages, and for every page
  number \<open>k\<close> with \<open>1 \<le> k \<le> ceil(N / P)\<close> the slice for page \<open>k\<close> has exactly
  \<open>min(P, N - (k - 1) * P)\<close> items.
\<close>

theorem pagination_pages_and_slices:
  fixes data :: "('a, 'm) listing_scheme" and xs :: "'a list"
  assumes "results data = Val xs" and "0 < P"
  shows "getTotalPages P (Some data) = \<lceil>real (length xs) / real_of_int P\<rceil>
       \<and> SystemResultsPage_totalPages P (Some data) = \<lceil>real (length xs) / real_of_int P\<rceil>
       \<and> SystemPage_totalPages xs = \<lceil>real (length xs) / real_of_int resultsPerPage\<rceil>
       \<and> (1 \<le> k \<and> k \<le> \<lceil>real (length xs) / real_of_int P\<rceil> \<longrightarrow>
            int (length (getCurrentPageData k P (Some data))) = min P (int (length xs) - (k - 1) * P)
          \<and> int (length (pageData k P (Some data))) = min P (int (length xs) - (k - 1) * P))
       \<and> (1 \<le> k \<and> k \<le> \<lceil>real (length xs) / real_of_int resultsPerPage\<rceil> \<longrightarrow>
            int (length (currentResults k xs))
              = min resultsPerPage (int (length xs) - (k - 1) * resultsPerPage))"
proof -
  have t3: "SystemPage_totalPages xs = \<lceil>real (length xs) / real_of_int resultsPerPage\<rceil>"
    by (simp only: SystemPage_totalPages_def Math_ceil_real)
  show ?thesis
    using total_pages_listing [OF assms(1)] page_slice_listing [OF assms] t3
      page_slice_SystemPage [of k xs]
    by blast
qed

theorem pagination_pages_and_slices_witness:
  "getTotalPages MappingDetailsPage_itemsPerPage (Some (listing_of [1..<26::nat])) = 3
   \<and> length (getCurrentPageData 3 MappingDetailsPage_itemsPerPage (Some (listing_of [1..<26::nat]))) = 5
   \<and> SystemResultsPage_totalPages SystemResultsPage_itemsPerPage (Some (listing_of [1..<26::nat])) = 2
   \<and> length (pageData 2 SystemResultsPage_itemsPerPage (Some (listing_of [1..<26::nat]))) = 5
   \<and> SystemPage_totalPages [1..<26::nat] = 3
   \<and> length (currentResults 3 [1..<26::nat]) = 5"
  using pagination_pages_and_slices
      [of "listing_of [1..<26::nat]" "[1..<26]" MappingDetailsPage_itemsPerPage 3]
    pagination_pages_and_slices
      [of "listing_of [1..<26::nat]" "[1..<26]" SystemResultsPage_itemsPerPage 2]
  by (simp add: listing_of_def MappingDetailsPage_itemsPerPage_def
      SystemResultsPage_itemsPerPage_def resultsPerPage_def)


section \<open>Verified properties: page-number window\<close>









lemma clamped_window_properties:
  assumes "1 < T" "1 \<le> cur" "cur \<le> T"
  shows "int (length [max 1 (min (cur - 2) (T - min 5 T + 1)) ..
                      max 1 (min (cur - 2) (T - min 5 T + 1)) + min 5 T - 1]) = min 5 T"
    and "set [max 1 (min (cur - 2) (T - min 5 T + 1)) ..
              max 1 (min (cur - 2) (T - min 5 T + 1)) + min 5 T - 1] \<subseteq> {1..T}"
    and "cur \<in> set [max 1 (min (cur - 2) (T - min 5 T + 1)) ..
                     max 1 (min (cur - 2) (T - min 5 T + 1)) + min 5 T - 1]"
  using assms by (auto simp: min_def max_def)





section \<open>Verified properties: best-match selection\<close>

lemma find_Some_property: "find P xs = Some x \<Longrightarrow> P x \<and> x \<in> set xs"
  by (induction xs) (auto split: if_splits)

lemma find_exists: "x \<in> set xs \<Longrightarrow> P x \<Longrightarrow> \<exists>y. find P xs = Some y"
  by (induction xs) auto

text \<open>
  Claim C2, as the code has it. The name of a result is its \<open>english_name\<close> when that is a
  non-empty string, and otherwise its \<open>title\<close> (the empty string when it has neither).
  Whenever some result of the list has a name equal to the term name up to letter case,
  \<open>findBestMatch\<close> returns such a result, the first one in the list, wherever in the list it
  stands. A \<open>title\<close> beside another \<open>english_name\<close> is not looked at.
\<close>

theorem best_match_prefers_exact_name:
  fixes data :: "(term_rec, 'm) listing_scheme"
  assumes "results data = Val rs"
    and "r \<in> set rs"
    and "(if truthy_str (english_name r) then toLowerCase (str_or_empty (english_name r))
          else toLowerCase (str_or_empty (title r))) = toLowerCase termName"
  shows "\<exists>m. findBestMatch toLowerCase (Some data) termName = Some m
            \<and> m \<in> set rs
            \<and> (if truthy_str (english_name m) then toLowerCase (str_or_empty (english_name m))
                else toLowerCase (str_or_empty (title m))) = toLowerCase termName
            \<and> find (\<lambda>x. (if truthy_str (english_name x) then toLowerCase (str_or_empty (english_name x))
                           else toLowerCase (str_or_empty (title x))) = toLowerCase termName) rs
                = Some m"
proof -
  have name: "\<And>x. toLowerCase (resultName x)
                  = (if truthy_str (english_name x) then toLowerCase (str_or_empty (english_name x))
                     else toLowerCase (str_or_empty (title x)))"
    by (simp add: resultName_def str_or_def)
  obtain m where m: "find (\<lambda>x. toLowerCase (resultName x) = toLowerCase termName) rs = Some m"
    using find_exists [of r rs "\<lambda>x. toLowerCase (resultName x) = toLowerCase termName"] assms(2,3)
    by (auto simp: name)
  have found: "toLowerCase (resultName m) = toLowerCase termName \<and> m \<in> set rs"
    using find_Some_property [OF m] by simp
  obtain first rest where rs: "rs = first # rest"
    using assms(2) by (cases rs) auto
  have "findBestMatch toLowerCase (Some data) termName = Some m"
    using assms(1) m unfolding rs
    by (simp add: findBestMatch_def opt_results_def Let_def)
  with found m show ?thesis unfolding name by blast
qed

theorem best_match_prefers_exact_name_witness:
  "findBestMatch ascii_toLowerCase
     (Some (listing_of [named_term (Val ''Typhoid fever'') Absent,
                        named_term (Val ''Pyrexia'') (Val ''Fever''),
                        named_term Absent (Val ''FEVER'')])) ''Fever''
   = Some (named_term Absent (Val ''FEVER''))"
proof -
  let ?rs = "[named_term (Val ''Typhoid fever'') Absent,
              named_term (Val ''Pyrexia'') (Val ''Fever''),
              named_term Absent (Val ''FEVER'')]"
  let ?r = "named_term Absent (Val ''FEVER'')"
  have h1: "results (listing_of ?rs) = Val ?rs" by (simp add: listing_of_def)
  have h2: "?r \<in> set ?rs" by simp
  have h3: "(if truthy_str (english_name ?r) then ascii_toLowerCase (str_or_empty (english_name ?r))
             else ascii_toLowerCase (str_or_empty (title ?r))) = ascii_toLowerCase ''Fever''"
    by code_simp
  have f: "find (\<lambda>x. (if truthy_str (english_name x) then ascii_toLowerCase (str_or_empty (english_name x))
                       else ascii_toLowerCase (str_or_empty (title x))) = ascii_toLowerCase ''Fever'') ?rs
           = Some ?r"
    by code_simp
  from best_match_prefers_exact_name [OF h1 h2 h3] f show ?thesis by auto
qed

text \<open>
  Claim C2 as stated fails for a result whose \<open>title\<close> equals the term name beside another
  \<open>english_name\<close>: of the results \<open>Typhoid fever\<close> and \<open>Pyrexia\<close> (title \<open>Fever\<close>), the
  selection for \<open>Fever\<close> returns the first, a substring match, whose name is not the term
  name.
\<close>

theorem best_match_title_beside_english_name_counterexample:
  "findBestMatch ascii_toLowerCase
     (Some (listing_of [named_term (Val ''Typhoid fever'') Absent,
                        named_term (Val ''Pyrexia'') (Val ''Fever'')])) ''Fever''
   = Some (named_term (Val ''Typhoid fever'') Absent)
   \<and> ascii_toLowerCase ''Typhoid fever'' \<noteq> ascii_toLowerCase ''Fever''
   \<and> title (named_term (Val ''Pyrexia'') (Val ''Fever'')) = Val ''Fever''"
  by code_simp


section \<open>Verified properties: reshaped mapping records\<close>

text \<open>
  Claim C3. In the mapping record made from a combined-search item, the slot of a system
  is \<open>null\<close> when the item's \<open>related_\<close> field of that system is absent or \<open>null\<close>, and
  otherwise holds the \<open>code\<close>, \<open>english_name\<close> and \<open>local_name\<close> of that field. The search
  handler applies this to every item of the combined response.
\<close>

theorem reshaped_namaste_slots:
  "(related_ayurveda item = Absent \<or> related_ayurveda item = Null
      \<longrightarrow> ayurveda (namaste_terms (toMappingResult item)) = Null)
   \<and> (\<forall>r. related_ayurveda item = Val r
      \<longrightarrow> ayurveda (namaste_terms (toMappingResult item))
            = Val \<lparr>nt_code = rel_code r, nt_english_name = rel_english_name r,
                   nt_local_name = rel_local_name r\<rparr>)
   \<and> (related_siddha item = Absent \<or> related_siddha item = Null
      \<longrightarrow> siddha (namaste_terms (toMappingResult item)) = Null)
   \<and> (\<forall>r. related_siddha item = Val r
      \<longrightarrow> siddha (namaste_terms (toMappingResult item))
            = Val \<lparr>nt_code = rel_code r, nt_english_name = rel_english_name r,
                   nt_local_name = rel_local_name r\<rparr>)
   \<and> (related_unani item = Absent \<or> related_unani item = Null
      \<longrightarrow> unani (namaste_terms (toMappingResult item)) = Null)
   \<and> (\<forall>r. related_unani item = Val r
      \<longrightarrow> unani (namaste_terms (toMappingResult item))
            = Val \<lparr>nt_code = rel_code r, nt_english_name = rel_english_name r,
                   nt_local_name = rel_local_name r\<rparr>)
   \<and> (\<forall>items. results combinedData = Val items
      \<longrightarrow> deriveMappingResults (Some combinedData) = map toMappingResult items)"
  by (auto simp: toMappingResult_def namaste_slot_def deriveMappingResults_def opt_results_def)

theorem reshaped_namaste_slots_witness:
  "namaste_terms (toMappingResult
     ((named_term Absent (Val ''Fever''))
        \<lparr>related_ayurveda := Val \<lparr>rel_code = Val ''AY-1'', rel_english_name = Val ''Jvara'',
                                   rel_local_name = Absent, rel_id = Val ''17''\<rparr>,
         related_siddha := Null\<rparr>))
   = \<lparr>ayurveda = Val \<lparr>nt_code = Val ''AY-1'', nt_english_name = Val ''Jvara'', nt_local_name = Absent\<rparr>,
      siddha = Null, unani = Null\<rparr>"
proof -
  let ?item = "(named_term Absent (Val ''Fever''))
        \<lparr>related_ayurveda := Val \<lparr>rel_code = Val ''AY-1'', rel_english_name = Val ''Jvara'',
                                   rel_local_name = Absent, rel_id = Val ''17''\<rparr>,
         related_siddha := Null\<rparr>"
  have a: "related_ayurveda ?item = Val \<lparr>rel_code = Val ''AY-1'', rel_english_name = Val ''Jvara'',
                                   rel_local_name = Absent, rel_id = Val ''17''\<rparr>"
    and s: "related_siddha ?item = Null" and u: "related_unani ?item = Absent"
    by (simp_all add: named_term_def)
  note w = reshaped_namaste_slots [of ?item "listing_of []"]
  have "ayurveda (namaste_terms (toMappingResult ?item))
          = Val \<lparr>nt_code = Val ''AY-1'', nt_english_name = Val ''Jvara'', nt_local_name = Absent\<rparr>"
    using w a by simp
  moreover have "siddha (namaste_terms (toMappingResult ?item)) = Null" using w s by simp
  moreover have "unani (namaste_terms (toMappingResult ?item)) = Null" using w u by simp
  ultimately show ?thesis by (cases "namaste_terms (toMappingResult ?item)") simp
qed


section \<open>Verified properties: the effects of the fetch utilities\<close>

lemmas js_defs = js_bind_def js_return_def js_throw_def js_get_def set_state_def
  try_catch_def try_finally_def console_error_def response_json_def fetch_def

lemma SearchPage_fetchData_run:
  "SearchPage_fetchData env url s =
     (Inr (delivered env url),
      s\<lparr>requests := requests s @ [url],
        console := console s @ (if request_fails env url then [''Error fetching data:''] else [])\<rparr>)"
  by (cases "network env url")
     (auto simp: SearchPage_fetchData_def js_defs delivered_def request_fails_def
           split: option.splits)

lemma SystemPage_fetchData_run:
  "SystemPage_fetchData env url s =
     (Inr (delivered env url),
      s\<lparr>requests := requests s @ [url],
        console := console s @ (if request_fails env url then [''fetch error''] else [])\<rparr>)"
  by (cases "network env url")
     (auto simp: SystemPage_fetchData_def js_defs delivered_def request_fails_def
           split: option.splits)

lemma delivered_fails: "request_fails env url \<Longrightarrow> delivered env url = None"
  by (auto simp: delivered_def request_fails_def split: option.splits)

lemma MappingDetailsPage_fetchData_miss:
  assumes "apiCache s url = None"
  shows "MappingDetailsPage_fetchData env url True s =
     (Inr (delivered env url),
      s\<lparr>requests := requests s @ [url],
        console := console s @ (if request_fails env url then [''Error fetching data:''] else []),
        apiCache := (case delivered env url of None \<Rightarrow> apiCache s | Some d \<Rightarrow> (apiCache s)(url \<mapsto> d))\<rparr>)"
  using assms
  by (cases "network env url")
     (auto simp: MappingDetailsPage_fetchData_def js_defs delivered_def request_fails_def
           split: option.splits)

lemma MappingDetailsPage_fetchData_hit:
  assumes "apiCache s url = Some d"
  shows "MappingDetailsPage_fetchData env url True s = (Inr (Some d), s)"
  using assms by (simp add: MappingDetailsPage_fetchData_def)

lemma performSearch_blank:
  assumes "term = [] \<or> trim env term = []"
  shows "performSearch env term s = (Inr [], s)"
  using assms by (auto simp: performSearch_def js_return_def)

lemma performSearch_run:
  assumes "term \<noteq> []" "trim env term \<noteq> []"
  shows "fst (performSearch env term s) = Inr (traditionalSystems env term)"
    and "results_state (snd (performSearch env term s)) =
           Some (initial_results
                  \<lparr>res_combined := Val (or_empty_results
                       (delivered env (buildSearchUrl env (searchStrategy s) term ''combined''))),
                   mappingResults := Val (deriveMappingResults
                       (delivered env (buildSearchUrl env (searchStrategy s) term ''combined''))),
                   res_icd11 := Val (or_empty_results
                       (delivered env (buildSearchUrl env (searchStrategy s) term ''icd11'')))\<rparr>)"
    and "requests (snd (performSearch env term s)) =
           requests s @ [buildSearchUrl env (searchStrategy s) term ''combined'',
                         buildSearchUrl env (searchStrategy s) term ''icd11'']"
    and "search_page.isSearching (snd (performSearch env term s)) = False"
    and "hasSearched (snd (performSearch env term s)) = True"
    and "search_page.suggestions (snd (performSearch env term s)) = search_page.suggestions s"
    and "searchStrategy (snd (performSearch env term s)) = searchStrategy s"
  using assms
  by (simp_all add: performSearch_def js_bind_def js_return_def js_get_def set_state_def
        try_catch_def try_finally_def SearchPage_fetchData_run setLoadingProgress_def
        spread_results_def)

lemma loadTraditionalSystem_run:
  "fst (loadTraditionalSystem env sys s) = Inr ()"
  "results_state (snd (loadTraditionalSystem env sys s)) =
     Some (set_result_slot (fst sys) (or_empty_results (delivered env (snd sys)))
             (spread_results (results_state s)))"
  "requests (snd (loadTraditionalSystem env sys s)) = requests s @ [snd sys]"
  "search_page.isSearching (snd (loadTraditionalSystem env sys s)) = search_page.isSearching s"
  by (simp_all add: loadTraditionalSystem_def js_bind_def js_return_def set_state_def
        SearchPage_fetchData_run setLoadingProgress_def)

lemma js_bind_run: "fst (m s) = Inr x \<Longrightarrow> js_bind m f s = f x (snd (m s))"
  by (cases "m s") (auto simp: js_bind_def)

lemma run_tasks_three:
  "run_tasks env [a, b, c] s =
     (Inr (), snd (loadTraditionalSystem env c
                (snd (loadTraditionalSystem env b (snd (loadTraditionalSystem env a s))))))"
proof -
  have step: "\<And>t f s. js_bind (loadTraditionalSystem env t) f s = f () (snd (loadTraditionalSystem env t s))"
    by (rule js_bind_run) (rule loadTraditionalSystem_run(1))
  show ?thesis by (simp add: step js_return_def)
qed

lemma performSearch_settled_run:
  assumes "term \<noteq> []" "trim env term \<noteq> []"
  shows "fst (performSearch_settled env term s) = Inr ()"
    and "requests (snd (performSearch_settled env term s)) =
           requests s @ [buildSearchUrl env (searchStrategy s) term ''combined'',
                         buildSearchUrl env (searchStrategy s) term ''icd11'']
             @ map snd (traditionalSystems env term)"
    and "results_state (snd (performSearch_settled env term s)) =
           Some \<lparr>res_combined = Val (or_empty_results
                     (delivered env (buildSearchUrl env (searchStrategy s) term ''combined''))),
                 res_ayurveda = Val (or_empty_results (delivered env (snd (traditionalSystems env term ! 0)))),
                 res_unani = Val (or_empty_results (delivered env (snd (traditionalSystems env term ! 1)))),
                 res_siddha = Val (or_empty_results (delivered env (snd (traditionalSystems env term ! 2)))),
                 res_icd11 = Val (or_empty_results
                     (delivered env (buildSearchUrl env (searchStrategy s) term ''icd11''))),
                 mappingResults = Val (deriveMappingResults
                     (delivered env (buildSearchUrl env (searchStrategy s) term ''combined'')))\<rparr>"
proof -
  have eq: "performSearch_settled env term s =
              run_tasks env (traditionalSystems env term) (snd (performSearch env term s))"
    unfolding performSearch_settled_def
    by (rule js_bind_run) (rule performSearch_run(1) [OF assms])
  show "fst (performSearch_settled env term s) = Inr ()"
    unfolding eq traditionalSystems_def run_tasks_three by simp
  show "requests (snd (performSearch_settled env term s)) =
           requests s @ [buildSearchUrl env (searchStrategy s) term ''combined'',
                         buildSearchUrl env (searchStrategy s) term ''icd11'']
             @ map snd (traditionalSystems env term)"
    unfolding eq traditionalSystems_def run_tasks_three
    by (simp add: loadTraditionalSystem_run performSearch_run [OF assms])
  show "results_state (snd (performSearch_settled env term s)) =
           Some \<lparr>res_combined = Val (or_empty_results
                     (delivered env (buildSearchUrl env (searchStrategy s) term ''combined''))),
                 res_ayurveda = Val (or_empty_results (delivered env (snd (traditionalSystems env term ! 0)))),
                 res_unani = Val (or_empty_results (delivered env (snd (traditionalSystems env term ! 1)))),
                 res_siddha = Val (or_empty_results (delivered env (snd (traditionalSystems env term ! 2)))),
                 res_icd11 = Val (or_empty_results
                     (delivered env (buildSearchUrl env (searchStrategy s) term ''icd11''))),
                 mappingResults = Val (deriveMappingResults
                     (delivered env (buildSearchUrl env (searchStrategy s) term ''combined'')))\<rparr>"
    unfolding eq traditionalSystems_def run_tasks_three
    by (simp add: loadTraditionalSystem_run performSearch_run [OF assms] set_result_slot_def
          spread_results_def initial_results_def)
qed

text \<open>One call of \<open>fetchPaginatedData\<close>: it returns a page, issues at most one request,
  and keeps the bound on page sizes.\<close>

lemma fetchPaginatedData_step:
  obtains d s' where
    "fetchPaginatedData env baseUrl searchTerm system page detail_pageSize s = (Inr d, s')"
    and "length (requests s') \<le> Suc (length (requests s))"
    and "pages_within n env baseUrl searchTerm system s
           \<Longrightarrow> pages_within n env baseUrl searchTerm system s'"
    and "pages_within n env baseUrl searchTerm system s
           \<Longrightarrow> length (results_or_empty (results d)) \<le> n"
proof (cases "paginatedUrl env baseUrl searchTerm system page detail_pageSize")
  case None
  then have "fetchPaginatedData env baseUrl searchTerm system page detail_pageSize s = (Inr empty_page, s)"
    by (simp add: fetchPaginatedData_def js_return_def)
  moreover have "length (results_or_empty (results (empty_page :: 'a listing))) \<le> n"
    by (simp add: empty_page_def results_or_empty_def)
  ultimately show ?thesis using that [of empty_page s] by simp
next
  case (Some url)
  note u = this
  have bound: "\<And>b. pages_within n env baseUrl searchTerm system s
                  \<Longrightarrow> delivered env url = Some b \<or> apiCache s url = Some b
                  \<Longrightarrow> length (results_or_empty (results b)) \<le> n"
    using u unfolding pages_within_def by blast
  show ?thesis
  proof (cases "apiCache s url")
    case (Some b)
    let ?d = "\<lparr>results = Val (results_or_empty (results b)), count = Val (count_or_zero (count b)),
               next_link = next_link b, previous = previous b\<rparr>"
    have run: "fetchPaginatedData env baseUrl searchTerm system page detail_pageSize s = (Inr ?d, s)"
      using u Some
      by (simp add: fetchPaginatedData_def MappingDetailsPage_fetchData_hit js_bind_def
            js_return_def try_catch_def)
    have "pages_within n env baseUrl searchTerm system s
            \<Longrightarrow> length (results_or_empty (results ?d)) \<le> n"
      using bound [of b] Some by (simp add: results_or_empty_def)
    with run show ?thesis using that [of ?d s] by simp
  next
    case None
    note miss = MappingDetailsPage_fetchData_miss [OF None, of env]
    show ?thesis
    proof (cases "delivered env url")
      case dNone: None
      let ?s' = "s\<lparr>requests := requests s @ [url],
                    console := console s @ (if request_fails env url then [''Error fetching data:''] else []),
                    apiCache := apiCache s\<rparr>"
      have run: "fetchPaginatedData env baseUrl searchTerm system page detail_pageSize s
                  = (Inr empty_page, ?s')"
        using u dNone
        by (simp add: fetchPaginatedData_def miss js_bind_def js_return_def try_catch_def)
      have "pages_within n env baseUrl searchTerm system s
              \<Longrightarrow> pages_within n env baseUrl searchTerm system ?s'"
        by (simp add: pages_within_def)
      moreover have "length (results_or_empty (results (empty_page :: 'a listing))) \<le> n"
        by (simp add: empty_page_def results_or_empty_def)
      ultimately show ?thesis using run that [of empty_page ?s'] by simp
    next
      case (Some b)
      let ?d = "\<lparr>results = Val (results_or_empty (results b)), count = Val (count_or_zero (count b)),
                 next_link = next_link b, previous = previous b\<rparr>"
      let ?s' = "s\<lparr>requests := requests s @ [url],
                    console := console s @ (if request_fails env url then [''Error fetching data:''] else []),
                    apiCache := (apiCache s)(url \<mapsto> b)\<rparr>"
      have run: "fetchPaginatedData env baseUrl searchTerm system page detail_pageSize s = (Inr ?d, ?s')"
        using u Some
        by (simp add: fetchPaginatedData_def miss js_bind_def js_return_def try_catch_def)
      have "pages_within n env baseUrl searchTerm system s
              \<Longrightarrow> pages_within n env baseUrl searchTerm system ?s'"
        using Some unfolding pages_within_def by (auto split: if_splits)
      moreover have "pages_within n env baseUrl searchTerm system s
              \<Longrightarrow> length (results_or_empty (results ?d)) \<le> n"
        using bound [of b] Some by (simp add: results_or_empty_def)
      ultimately show ?thesis using run that [of ?d ?s'] by simp
    qed
  qed
qed

lemma fetchAllPages_loop_bound:
  "\<exists>xs s'. fetchAllPages_loop env baseUrl searchTerm system maxPages allResults page hasMore s = (Inr xs, s')
     \<and> length (requests s') \<le> length (requests s) + (if hasMore then Suc maxPages - page else 0)
     \<and> (pages_within n env baseUrl searchTerm system s \<longrightarrow>
          length xs \<le> length allResults + n * (if hasMore then Suc maxPages - page else 0))"
proof (induction env baseUrl searchTerm system maxPages allResults page hasMore s
       rule: fetchAllPages_loop.induct)
  case (1 env baseUrl searchTerm system maxPages allResults page hasMore s)
  show ?case
  proof (cases "hasMore \<and> page \<le> maxPages")
    case False
    have "fetchAllPages_loop env baseUrl searchTerm system maxPages allResults page hasMore s
               = (Inr allResults, s)"
      by (subst fetchAllPages_loop.simps) (simp only: False if_False)
    then show ?thesis by simp
  next
    case True
    obtain d s1 where
      run: "fetchPaginatedData env baseUrl searchTerm system page detail_pageSize s = (Inr d, s1)"
      and req: "length (requests s1) \<le> Suc (length (requests s))"
      and inv: "pages_within n env baseUrl searchTerm system s \<Longrightarrow> pages_within n env baseUrl searchTerm system s1"
      and small: "pages_within n env baseUrl searchTerm system s \<Longrightarrow> length (results_or_empty (results d)) \<le> n"
      by (rule fetchPaginatedData_step [of env baseUrl searchTerm system page s n]) blast
    have budget: "Suc maxPages - page = Suc (Suc maxPages - (page + 1))"
      using True by arith
    show ?thesis
    proof (cases "0 < length (results_or_empty (results d))")
      case more: True
      obtain xs s' where
        rec: "fetchAllPages_loop env baseUrl searchTerm system maxPages
                (allResults @ results_or_empty (results d)) (page + 1) (truthy_str (next_link d)) s1
              = (Inr xs, s')"
        and rreq: "length (requests s') \<le> length (requests s1)
                    + (if truthy_str (next_link d) then Suc maxPages - (page + 1) else 0)"
        and rlen: "pages_within n env baseUrl searchTerm system s1 \<longrightarrow>
                    length xs \<le> length (allResults @ results_or_empty (results d))
                      + n * (if truthy_str (next_link d) then Suc maxPages - (page + 1) else 0)"
        using "1.IH"(1) [OF True run [symmetric] refl more] by blast
      have eq: "fetchAllPages_loop env baseUrl searchTerm system maxPages allResults page hasMore s
                = (Inr xs, s')"
        using True run more rec by (subst fetchAllPages_loop.simps) simp
      have r: "length (requests s') \<le> length (requests s) + (Suc maxPages - page)"
        using rreq req budget by (simp split: if_splits)
      have l: "pages_within n env baseUrl searchTerm system s \<Longrightarrow> length xs \<le> length allResults + n * (Suc maxPages - page)"
      proof -
        assume pw: "pages_within n env baseUrl searchTerm system s"
        have a: "length xs \<le> length allResults + length (results_or_empty (results d))
                   + n * (if truthy_str (next_link d) then Suc maxPages - (page + 1) else 0)"
          using rlen inv [OF pw] by simp
        have b: "n * (if truthy_str (next_link d) then Suc maxPages - (page + 1) else 0)
                   \<le> n * (Suc maxPages - (page + 1))"
          by simp
        have c: "n * (Suc maxPages - page) = n + n * (Suc maxPages - (page + 1))"
          by (subst budget) simp
        show ?thesis using a b c small [OF pw] by linarith
      qed
      show ?thesis using eq r l True by auto
    next
      case False
      obtain xs s' where
        rec: "fetchAllPages_loop env baseUrl searchTerm system maxPages allResults page False s1
              = (Inr xs, s')"
        and rreq: "length (requests s') \<le> length (requests s1) + 0"
        and rlen: "pages_within n env baseUrl searchTerm system s1 \<longrightarrow> length xs \<le> length allResults + n * 0"
        using "1.IH"(2) [OF True run [symmetric] refl False] by auto
      have eq: "fetchAllPages_loop env baseUrl searchTerm system maxPages allResults page hasMore s
                = (Inr xs, s')"
        using True run False rec by (subst fetchAllPages_loop.simps) simp
      have r: "length (requests s') \<le> length (requests s) + (Suc maxPages - page)"
        using rreq req budget by simp
      have l: "pages_within n env baseUrl searchTerm system s \<Longrightarrow> length xs \<le> length allResults + n * (Suc maxPages - page)"
        using rlen inv by simp
      show ?thesis using eq r l True by auto
    qed
  qed
qed


section \<open>Verified properties: failure of the combined search\<close>

text \<open>
  Claim C7. When the combined-search request of \<open>performSearch\<close> fails, no exception
  escapes the handler, the \<open>mappingResults\<close> it stores is the empty sequence, and the
  other four requests (ICD-11, Ayurveda, Unani, Siddha) are still issued: the handler
  returns normally with the three per-system callbacks started, these complete
  normally too, and the requests made are the five URLs in order, with the
  \<open>mappingResults\<close> still empty at the end.
\<close>

theorem combined_failure_is_contained:
  assumes "term \<noteq> []" and "trim env term \<noteq> []"
    and "request_fails env (buildSearchUrl env (searchStrategy s) term ''combined'')"
  shows "fst (performSearch env term s) = Inr (traditionalSystems env term)
       \<and> (\<exists>r. results_state (snd (performSearch env term s)) = Some r \<and> mappingResults r = Val [])
       \<and> fst (performSearch_settled env term s) = Inr ()
       \<and> (\<exists>r. results_state (snd (performSearch_settled env term s)) = Some r
                \<and> mappingResults r = Val [])
       \<and> requests (snd (performSearch_settled env term s)) =
           requests s @ [buildSearchUrl env (searchStrategy s) term ''combined'',
                         buildSearchUrl env (searchStrategy s) term ''icd11'']
             @ map snd (traditionalSystems env term)"
proof -
  have none: "delivered env (buildSearchUrl env (searchStrategy s) term ''combined'') = None"
    using assms(3) by (rule delivered_fails)
  have empty: "deriveMappingResults None = []"
    by (simp add: deriveMappingResults_def opt_results_def)
  have a: "\<exists>r. results_state (snd (performSearch env term s)) = Some r \<and> mappingResults r = Val []"
    by (simp add: performSearch_run(2) [OF assms(1,2)] none empty)
  have b: "\<exists>r. results_state (snd (performSearch_settled env term s)) = Some r
                \<and> mappingResults r = Val []"
    by (simp add: performSearch_settled_run(3) [OF assms(1,2)] none empty)
  show ?thesis
    using a b performSearch_run(1) [OF assms(1,2)] performSearch_settled_run(1,2) [OF assms(1,2)]
    by blast
qed

theorem combined_failure_is_contained_witness:
  "fst (performSearch_settled (example_env offline) ''fever'' fresh_search_page) = Inr ()
   \<and> (\<exists>r. results_state (snd (performSearch_settled (example_env offline) ''fever'' fresh_search_page))
             = Some r \<and> mappingResults r = Val [])
   \<and> requests (snd (performSearch_settled (example_env offline) ''fever'' fresh_search_page))
       = [''http://localhost:8000/terminologies/search/combined/?q=fever&fuzzy=true&threshold=0.3&page_size=20'',
          ''http://localhost:8000/terminologies/search/icd11/?q=fever&fuzzy=true&threshold=0.3&page_size=15'',
          ''http://localhost:8000/terminologies/ayurveda/search/?q=fever&threshold=0.2&page_size=12'',
          ''http://localhost:8000/terminologies/unani/search/?q=fever&threshold=0.2&page_size=12'',
          ''http://localhost:8000/terminologies/siddha/search/?q=fever&threshold=0.2&page_size=12'']"
proof -
  have h1: "''fever'' \<noteq> []" by simp
  have h2: "trim (example_env offline) ''fever'' \<noteq> []" by (simp add: example_env_def)
  have h3: "request_fails (example_env offline)
              (buildSearchUrl (example_env offline) (searchStrategy fresh_search_page) ''fever'' ''combined'')"
    by (simp add: request_fails_def example_env_def offline_def)
  have u1: "buildSearchUrl (example_env offline) (searchStrategy fresh_search_page) ''fever'' ''combined''
            = ''http://localhost:8000/terminologies/search/combined/?q=fever&fuzzy=true&threshold=0.3&page_size=20''"
    by (simp add: buildSearchUrl_def example_env_def fresh_search_page_def)
  have u2: "buildSearchUrl (example_env offline) (searchStrategy fresh_search_page) ''fever'' ''icd11''
            = ''http://localhost:8000/terminologies/search/icd11/?q=fever&fuzzy=true&threshold=0.3&page_size=15''"
    by (simp add: buildSearchUrl_def example_env_def fresh_search_page_def)
  have u3: "map snd (traditionalSystems (example_env offline) ''fever'')
            = [''http://localhost:8000/terminologies/ayurveda/search/?q=fever&threshold=0.2&page_size=12'',
               ''http://localhost:8000/terminologies/unani/search/?q=fever&threshold=0.2&page_size=12'',
               ''http://localhost:8000/terminologies/siddha/search/?q=fever&threshold=0.2&page_size=12'']"
    by (simp add: traditionalSystems_def example_env_def)
  have r0: "requests fresh_search_page = []" by (simp add: fresh_search_page_def)
  note w = combined_failure_is_contained [OF h1 h2 h3]
  from w [unfolded u1 u2 u3 r0] show ?thesis by simp
qed


section \<open>Verified properties: suggestion fetchers\<close>

lemma fetchSuggestions_run:
  assumes "2 \<le> length term"
  shows "fst (fetchSuggestions env term s) = Inr ()"
    and "requests (snd (fetchSuggestions env term s)) = requests s @ [suggestionsUrl env term]"
    and "search_page.suggestions (snd (fetchSuggestions env term s)) =
           (case opt_results (delivered env (suggestionsUrl env term)) of
              Some rs \<Rightarrow> map toSuggestion rs
            | None \<Rightarrow> search_page.suggestions s)"
    and "recommendations (snd (fetchSuggestions env term s)) =
           (case opt_results (delivered env (suggestionsUrl env term)) of
              Some rs \<Rightarrow> js_slice (map toSuggestion rs) 0 3
            | None \<Rightarrow> recommendations s)"
proof -
  have ne: "term \<noteq> []" "\<not> length term < 2" using assms by auto
  show "fst (fetchSuggestions env term s) = Inr ()"
    using ne
    by (simp add: fetchSuggestions_def js_bind_def js_return_def set_state_def try_catch_def
          try_finally_def SearchPage_fetchData_run Let_def split: option.splits)
  show "requests (snd (fetchSuggestions env term s)) = requests s @ [suggestionsUrl env term]"
    using ne
    by (simp add: fetchSuggestions_def js_bind_def js_return_def set_state_def try_catch_def
          try_finally_def SearchPage_fetchData_run Let_def split: option.splits)
  show "search_page.suggestions (snd (fetchSuggestions env term s)) =
           (case opt_results (delivered env (suggestionsUrl env term)) of
              Some rs \<Rightarrow> map toSuggestion rs
            | None \<Rightarrow> search_page.suggestions s)"
    using ne
    by (simp add: fetchSuggestions_def js_bind_def js_return_def set_state_def try_catch_def
          try_finally_def SearchPage_fetchData_run Let_def split: option.splits)
  show "recommendations (snd (fetchSuggestions env term s)) =
           (case opt_results (delivered env (suggestionsUrl env term)) of
              Some rs \<Rightarrow> js_slice (map toSuggestion rs) 0 3
            | None \<Rightarrow> recommendations s)"
    using ne
    by (simp add: fetchSuggestions_def js_bind_def js_return_def set_state_def try_catch_def
          try_finally_def SearchPage_fetchData_run Let_def split: option.splits)
qed

lemma fetchAllSuggestions_run:
  assumes "2 \<le> length term"
  shows "fst (fetchAllSuggestions env systemName term s) = Inr ()"
    and "requests (snd (fetchAllSuggestions env systemName term s)) =
           requests s @ [autocompleteUrl env systemName term]"
    and "request_fails env (autocompleteUrl env systemName term) \<Longrightarrow>
           system_page.suggestions (snd (fetchAllSuggestions env systemName term s)) = []
         \<and> allSuggestions (snd (fetchAllSuggestions env systemName term s)) = []
         \<and> alerts (snd (fetchAllSuggestions env systemName term s)) = alerts s"
proof -
  have ne: "term \<noteq> []" "\<not> length term < 2" using assms by auto
  show "fst (fetchAllSuggestions env systemName term s) = Inr ()"
    using ne
    by (simp add: fetchAllSuggestions_def js_bind_def js_return_def set_state_def try_catch_def
          try_finally_def SystemPage_fetchData_run updateDisplayedSuggestions_def Let_def)
  show "requests (snd (fetchAllSuggestions env systemName term s)) =
           requests s @ [autocompleteUrl env systemName term]"
    using ne
    by (simp add: fetchAllSuggestions_def js_bind_def js_return_def set_state_def try_catch_def
          try_finally_def SystemPage_fetchData_run updateDisplayedSuggestions_def Let_def)
  show "request_fails env (autocompleteUrl env systemName term) \<Longrightarrow>
           system_page.suggestions (snd (fetchAllSuggestions env systemName term s)) = []
         \<and> allSuggestions (snd (fetchAllSuggestions env systemName term s)) = []
         \<and> alerts (snd (fetchAllSuggestions env systemName term s)) = alerts s"
    using ne
    by (simp add: fetchAllSuggestions_def js_bind_def js_return_def set_state_def try_catch_def
          try_finally_def SystemPage_fetchData_run updateDisplayedSuggestions_def Let_def
          delivered_fails js_slice_def)
qed

text \<open>
  Claim C8. For an input shorter than two characters (the empty string included) the
  suggestion fetcher of the search page, the debounce callback that calls it, and the
  suggestion fetcher of the per-system page issue no request: they return normally and
  the only change to the state is that the suggestion lists are cleared.
\<close>

theorem short_input_issues_no_request:
  assumes "length term < 2"
  shows "fetchSuggestions env term s
           = (Inr (), s\<lparr>search_page.suggestions := [], recommendations := []\<rparr>)
       \<and> suggestions_debounce env term s
           = (Inr (), s\<lparr>search_page.suggestions := [], recommendations := []\<rparr>)
       \<and> requests (snd (fetchSuggestions env term s)) = requests s
       \<and> requests (snd (suggestions_debounce env term s)) = requests s
       \<and> fetchAllSuggestions env' systemName term s'
           = (Inr (), s'\<lparr>allSuggestions := [], system_page.suggestions := [],
                          suggTotal := 0, suggTotalPages := 1\<rparr>)
       \<and> requests (snd (fetchAllSuggestions env' systemName term s')) = requests s'"
  using assms
  by (simp add: fetchSuggestions_def suggestions_debounce_def fetchAllSuggestions_def
        clearSuggestions_def set_state_def)

theorem short_input_issues_no_request_witness:
  "requests (snd (fetchSuggestions (example_env offline) ''f''
      (fresh_search_page\<lparr>search_page.suggestions := [toSuggestion (named_term Absent (Val ''Fever''))]\<rparr>))) = []
   \<and> search_page.suggestions (snd (fetchSuggestions (example_env offline) ''f''
      (fresh_search_page\<lparr>search_page.suggestions := [toSuggestion (named_term Absent (Val ''Fever''))]\<rparr>))) = []
   \<and> requests (snd (fetchAllSuggestions (example_env offline) Siddha ''''
      (fresh_system_page\<lparr>system_page.suggestions := [''fever'']\<rparr>))) = []
   \<and> system_page.suggestions (snd (fetchAllSuggestions (example_env offline) Siddha ''''
      (fresh_system_page\<lparr>system_page.suggestions := [''fever'']\<rparr>))) = []"
proof -
  have h1: "length ''f'' < 2" by simp
  have h2: "length '''' < 2" by simp
  note w1 = short_input_issues_no_request [OF h1, of "example_env offline"
      "fresh_search_page\<lparr>search_page.suggestions := [toSuggestion (named_term Absent (Val ''Fever''))]\<rparr>"
      "example_env offline" Siddha fresh_system_page]
  note w2 = short_input_issues_no_request [OF h2, of "example_env offline" fresh_search_page
      "example_env offline" Siddha
      "fresh_system_page\<lparr>system_page.suggestions := [''fever'']\<rparr>"]
  show ?thesis using w1 w2 by (simp add: fresh_search_page_def fresh_system_page_def)
qed

text \<open>
  Claim C10, on the code. When the request of the search page's suggestion fetcher
  fails, the fetcher returns normally, but the suggestion list and the recommendations
  are left as they were: \<open>fetchData\<close> has already turned the failure into \<open>null\<close>, so the
  \<open>catch\<close> block that clears the lists does not run. The fetcher of the per-system page
  does clear its lists on the same failure. Neither shows a message.
\<close>

theorem failed_suggestion_fetch_keeps_stale_list:
  assumes "2 \<le> length term"
    and "request_fails env (suggestionsUrl env term)"
    and "request_fails env' (autocompleteUrl env' systemName term)"
  shows "fst (fetchSuggestions env term s) = Inr ()
       \<and> search_page.suggestions (snd (fetchSuggestions env term s)) = search_page.suggestions s
       \<and> recommendations (snd (fetchSuggestions env term s)) = recommendations s
       \<and> fst (fetchAllSuggestions env' systemName term s') = Inr ()
       \<and> system_page.suggestions (snd (fetchAllSuggestions env' systemName term s')) = []
       \<and> allSuggestions (snd (fetchAllSuggestions env' systemName term s')) = []
       \<and> alerts (snd (fetchAllSuggestions env' systemName term s')) = alerts s'"
proof -
  have none: "opt_results (delivered env (suggestionsUrl env term)) = None"
    using delivered_fails [OF assms(2)] by (simp add: opt_results_def)
  show ?thesis
    using fetchSuggestions_run [OF assms(1), of env s] none
      fetchAllSuggestions_run(1) [OF assms(1), of env' systemName s']
      fetchAllSuggestions_run(3) [OF assms(1) assms(3), of s']
    by simp
qed

theorem failed_suggestion_fetch_keeps_stale_list_witness:
  "search_page.suggestions (snd (fetchSuggestions (example_env offline) ''feve''
      (fresh_search_page\<lparr>search_page.suggestions := [toSuggestion (named_term Absent (Val ''Fever''))]\<rparr>)))
   = [toSuggestion (named_term Absent (Val ''Fever''))]
   \<and> system_page.suggestions (snd (fetchAllSuggestions (example_env offline) Siddha ''feve''
        (fresh_system_page\<lparr>system_page.suggestions := [''fever'']\<rparr>))) = []"
proof -
  have h1: "2 \<le> length ''feve''" by simp
  have h2: "request_fails (example_env offline) (suggestionsUrl (example_env offline) ''feve'')"
    by (simp add: request_fails_def example_env_def offline_def)
  have h3: "request_fails (example_env offline) (autocompleteUrl (example_env offline) Siddha ''feve'')"
    by (simp add: request_fails_def example_env_def offline_def)
  note w = failed_suggestion_fetch_keeps_stale_list [OF h1 h2 h3,
      of "fresh_search_page\<lparr>search_page.suggestions := [toSuggestion (named_term Absent (Val ''Fever''))]\<rparr>"
         "fresh_system_page\<lparr>system_page.suggestions := [''fever'']\<rparr>"]
  show ?thesis using w by simp
qed


section \<open>Verified properties: network failures\<close>

lemma fetchPaginatedData_fails:
  assumes "paginatedUrl env baseUrl searchTerm system page pageSize = Some url"
    and "apiCache m url = None" and "request_fails env url"
  shows "fst (fetchPaginatedData env baseUrl searchTerm system page pageSize m) = Inr empty_page"
    and "console (snd (fetchPaginatedData env baseUrl searchTerm system page pageSize m))
           = console m @ [''Error fetching data:'']"
  using assms
  by (simp_all add: fetchPaginatedData_def MappingDetailsPage_fetchData_miss delivered_fails
        js_bind_def js_return_def try_catch_def)

lemma SystemResultsPage_get_fails:
  assumes "request_fails env (systemResultsUrl env system searchTerm)"
  shows "fst (SystemResultsPage_get env system searchTerm r) = Inr ()"
    and "data_state (snd (SystemResultsPage_get env system searchTerm r))
           = Some \<lparr>results = Val [], count = Val 0, next_link = Absent, previous = Absent\<rparr>"
    and "isLoading (snd (SystemResultsPage_get env system searchTerm r)) = False"
    and "console (snd (SystemResultsPage_get env system searchTerm r)) = console r @ [''error'']"
  using assms
  by (cases "network env (systemResultsUrl env system searchTerm)";
      auto simp: SystemResultsPage_get_def js_defs request_fails_def split: option.splits)+

lemma handleSearch_fails:
  assumes "trim env searchTerm \<noteq> []"
    and "request_fails env (searchEp env systemName @ encodeURIComponent env searchTerm)"
  shows "fst (handleSearch env systemName searchTerm s) = Inr ()"
    and "results_list (snd (handleSearch env systemName searchTerm s)) = []"
    and "alerts (snd (handleSearch env systemName searchTerm s)) = alerts s"
    and "console (snd (handleSearch env systemName searchTerm s)) = console s @ [''fetch error'']"
  using assms
  by (simp_all add: handleSearch_def js_bind_def js_return_def set_state_def try_catch_def
        try_finally_def SystemPage_fetchData_run delivered_fails Let_def)

lemma loadTraditionalSystem_console:
  "console (snd (loadTraditionalSystem env sys s))
     = console s @ (if request_fails env (snd sys) then [''Error fetching data:''] else [])"
  by (simp add: loadTraditionalSystem_def js_bind_def js_return_def set_state_def
        SearchPage_fetchData_run setLoadingProgress_def)

lemma performSearch_console:
  assumes "term \<noteq> []" "trim env term \<noteq> []"
  shows "console (snd (performSearch env term s))
     = console s
       @ (if request_fails env (buildSearchUrl env (searchStrategy s) term ''combined'')
          then [''Error fetching data:''] else [])
       @ (if request_fails env (buildSearchUrl env (searchStrategy s) term ''icd11'')
          then [''Error fetching data:''] else [])"
  using assms
  by (simp add: performSearch_def js_bind_def js_return_def js_get_def set_state_def
        try_catch_def try_finally_def SearchPage_fetchData_run setLoadingProgress_def)

lemma performSearch_settled_console:
  assumes "term \<noteq> []" "trim env term \<noteq> []"
  shows "console (snd (performSearch_settled env term s))
     = console s
       @ concat (map (\<lambda>u. if request_fails env u then [''Error fetching data:''] else [])
                  ([buildSearchUrl env (searchStrategy s) term ''combined'',
                    buildSearchUrl env (searchStrategy s) term ''icd11'']
                   @ map snd (traditionalSystems env term)))"
proof -
  have eq: "performSearch_settled env term s =
              run_tasks env (traditionalSystems env term) (snd (performSearch env term s))"
    unfolding performSearch_settled_def
    by (rule js_bind_run) (rule performSearch_run(1) [OF assms])
  show ?thesis
    unfolding eq traditionalSystems_def run_tasks_three
    by (simp add: loadTraditionalSystem_console performSearch_console [OF assms])
qed

lemma traditionalSystems_urls:
  "(''ayurveda'', url) \<in> set (traditionalSystems env term)
     \<Longrightarrow> url = snd (traditionalSystems env term ! 0)"
  "(''unani'', url) \<in> set (traditionalSystems env term)
     \<Longrightarrow> url = snd (traditionalSystems env term ! 1)"
  "(''siddha'', url) \<in> set (traditionalSystems env term)
     \<Longrightarrow> url = snd (traditionalSystems env term ! 2)"
  by (simp_all add: traditionalSystems_def)

text \<open>
  Claim C4, as the code has it. A failing request to a list endpoint never propagates an
  exception; the failure is caught, written to the console, and turned into a value that
  depends on the component. The \<open>fetchData\<close> utilities of SearchPage, SystemPage and
  MappingDetailsPage (on a URL that is not in its cache) log the failure and return
  \<open>null\<close>. The search handler of SearchPage returns normally, stores \<open>{ results: [] }\<close>,
  an object without a \<open>count\<close>, in the slot of every source whose request failed
  (combined, ICD-11, Ayurveda, Unani, Siddha), and has logged one line for each failed
  request. The search of SystemPage logs the failure and stores the empty array as its
  results. \<open>fetchPaginatedData\<close> logs the failure and returns
  \<open>{ results: [], count: 0, next: null, previous: null }\<close> (when the URL is not in its
  cache). SystemResultsPage logs the failure and stores \<open>{ results: [], count: 0 }\<close>.
\<close>

theorem network_failure_yields_component_default:
  fixes env :: "term_rec listing env"
  assumes "request_fails env url"
  shows "fst (SearchPage_fetchData env url w) = Inr None
       \<and> console (snd (SearchPage_fetchData env url w)) = console w @ [''Error fetching data:'']
       \<and> fst (SystemPage_fetchData env url w) = Inr None
       \<and> console (snd (SystemPage_fetchData env url w)) = console w @ [''fetch error'']
       \<and> (snd sys = url \<longrightarrow>
            fst (loadTraditionalSystem env sys q) = Inr ()
          \<and> results_state (snd (loadTraditionalSystem env sys q))
              = Some (set_result_slot (fst sys)
                       \<lparr>results = Val [], count = Absent, next_link = Absent, previous = Absent\<rparr>
                       (spread_results (results_state q)))
          \<and> console (snd (loadTraditionalSystem env sys q)) = console q @ [''Error fetching data:''])
       \<and> (term \<noteq> [] \<and> trim env term \<noteq> [] \<longrightarrow>
            fst (performSearch_settled env term q) = Inr ()
          \<and> (\<exists>r. results_state (snd (performSearch_settled env term q)) = Some r
                \<and> (buildSearchUrl env (searchStrategy q) term ''combined'' = url \<longrightarrow>
                     res_combined r
                       = Val \<lparr>results = Val [], count = Absent, next_link = Absent, previous = Absent\<rparr>)
                \<and> (buildSearchUrl env (searchStrategy q) term ''icd11'' = url \<longrightarrow>
                     res_icd11 r
                       = Val \<lparr>results = Val [], count = Absent, next_link = Absent, previous = Absent\<rparr>)
                \<and> ((''ayurveda'', url) \<in> set (traditionalSystems env term) \<longrightarrow>
                     res_ayurveda r
                       = Val \<lparr>results = Val [], count = Absent, next_link = Absent, previous = Absent\<rparr>)
                \<and> ((''unani'', url) \<in> set (traditionalSystems env term) \<longrightarrow>
                     res_unani r
                       = Val \<lparr>results = Val [], count = Absent, next_link = Absent, previous = Absent\<rparr>)
                \<and> ((''siddha'', url) \<in> set (traditionalSystems env term) \<longrightarrow>
                     res_siddha r
                       = Val \<lparr>results = Val [], count = Absent, next_link = Absent, previous = Absent\<rparr>))
          \<and> console (snd (performSearch_settled env term q))
              = console q
                @ concat (map (\<lambda>u. if request_fails env u then [''Error fetching data:''] else [])
                           ([buildSearchUrl env (searchStrategy q) term ''combined'',
                             buildSearchUrl env (searchStrategy q) term ''icd11'']
                            @ map snd (traditionalSystems env term))))
       \<and> (apiCache m url = None \<longrightarrow>
            fst (MappingDetailsPage_fetchData env url True m) = Inr None
          \<and> console (snd (MappingDetailsPage_fetchData env url True m))
              = console m @ [''Error fetching data:''])
       \<and> (paginatedUrl env baseUrl searchTerm system page pageSize = Some url \<and> apiCache m url = None \<longrightarrow>
            fst (fetchPaginatedData env baseUrl searchTerm system page pageSize m)
              = Inr \<lparr>results = Val [], count = Val 0, next_link = Null, previous = Null\<rparr>
          \<and> console (snd (fetchPaginatedData env baseUrl searchTerm system page pageSize m))
              = console m @ [''Error fetching data:''])
       \<and> (systemResultsUrl env system' searchTerm = url \<longrightarrow>
            fst (SystemResultsPage_get env system' searchTerm r) = Inr ()
          \<and> data_state (snd (SystemResultsPage_get env system' searchTerm r))
              = Some \<lparr>results = Val [], count = Val 0, next_link = Absent, previous = Absent\<rparr>
          \<and> console (snd (SystemResultsPage_get env system' searchTerm r)) = console r @ [''error''])
       \<and> (trim env' searchTerm \<noteq> []
            \<and> request_fails env' (searchEp env' systemName @ encodeURIComponent env' searchTerm) \<longrightarrow>
            fst (handleSearch env' systemName searchTerm p) = Inr ()
          \<and> results_list (snd (handleSearch env' systemName searchTerm p)) = []
          \<and> console (snd (handleSearch env' systemName searchTerm p)) = console p @ [''fetch error''])"
proof -
  note none = delivered_fails [OF assms]
  let ?E = "\<lparr>results = Val ([] :: term_rec list), count = Absent, next_link = Absent, previous = Absent\<rparr>"
  have E: "or_empty_results (delivered env url) = ?E"
    by (simp add: none or_empty_results_def results_only_def)
  have a: "fst (SearchPage_fetchData env url w) = Inr None"
    by (simp add: SearchPage_fetchData_run none)
  have a': "console (snd (SearchPage_fetchData env url w)) = console w @ [''Error fetching data:'']"
    using assms by (simp add: SearchPage_fetchData_run)
  have b: "fst (SystemPage_fetchData env url w) = Inr None"
    by (simp add: SystemPage_fetchData_run none)
  have b': "console (snd (SystemPage_fetchData env url w)) = console w @ [''fetch error'']"
    using assms by (simp add: SystemPage_fetchData_run)
  have c: "snd sys = url \<longrightarrow>
            fst (loadTraditionalSystem env sys q) = Inr ()
          \<and> results_state (snd (loadTraditionalSystem env sys q))
              = Some (set_result_slot (fst sys) ?E (spread_results (results_state q)))
          \<and> console (snd (loadTraditionalSystem env sys q)) = console q @ [''Error fetching data:'']"
    using E assms by (auto simp: loadTraditionalSystem_run loadTraditionalSystem_console)
  have d: "apiCache m url = None \<longrightarrow>
            fst (MappingDetailsPage_fetchData env url True m) = Inr None
          \<and> console (snd (MappingDetailsPage_fetchData env url True m))
              = console m @ [''Error fetching data:'']"
    using assms by (simp add: MappingDetailsPage_fetchData_miss none)
  have e: "paginatedUrl env baseUrl searchTerm system page pageSize = Some url \<and> apiCache m url = None \<longrightarrow>
            fst (fetchPaginatedData env baseUrl searchTerm system page pageSize m)
              = Inr \<lparr>results = Val [], count = Val 0, next_link = Null, previous = Null\<rparr>
          \<and> console (snd (fetchPaginatedData env baseUrl searchTerm system page pageSize m))
              = console m @ [''Error fetching data:'']"
    using fetchPaginatedData_fails [of env baseUrl searchTerm system page pageSize url m] assms
    by (simp add: empty_page_def)
  have f: "systemResultsUrl env system' searchTerm = url \<longrightarrow>
            fst (SystemResultsPage_get env system' searchTerm r) = Inr ()
          \<and> data_state (snd (SystemResultsPage_get env system' searchTerm r))
              = Some \<lparr>results = Val [], count = Val 0, next_link = Absent, previous = Absent\<rparr>
          \<and> console (snd (SystemResultsPage_get env system' searchTerm r)) = console r @ [''error'']"
    using SystemResultsPage_get_fails(1,2,4) [of env system' searchTerm r] assms by auto
  have g: "trim env' searchTerm \<noteq> []
            \<and> request_fails env' (searchEp env' systemName @ encodeURIComponent env' searchTerm) \<longrightarrow>
            fst (handleSearch env' systemName searchTerm p) = Inr ()
          \<and> results_list (snd (handleSearch env' systemName searchTerm p)) = []
          \<and> console (snd (handleSearch env' systemName searchTerm p)) = console p @ [''fetch error'']"
    using handleSearch_fails(1,2,4) [of env' searchTerm systemName p] by blast
  have h: "term \<noteq> [] \<and> trim env term \<noteq> [] \<longrightarrow>
            fst (performSearch_settled env term q) = Inr ()
          \<and> (\<exists>r. results_state (snd (performSearch_settled env term q)) = Some r
                \<and> (buildSearchUrl env (searchStrategy q) term ''combined'' = url \<longrightarrow> res_combined r = Val ?E)
                \<and> (buildSearchUrl env (searchStrategy q) term ''icd11'' = url \<longrightarrow> res_icd11 r = Val ?E)
                \<and> ((''ayurveda'', url) \<in> set (traditionalSystems env term) \<longrightarrow> res_ayurveda r = Val ?E)
                \<and> ((''unani'', url) \<in> set (traditionalSystems env term) \<longrightarrow> res_unani r = Val ?E)
                \<and> ((''siddha'', url) \<in> set (traditionalSystems env term) \<longrightarrow> res_siddha r = Val ?E))
          \<and> console (snd (performSearch_settled env term q))
              = console q
                @ concat (map (\<lambda>u. if request_fails env u then [''Error fetching data:''] else [])
                           ([buildSearchUrl env (searchStrategy q) term ''combined'',
                             buildSearchUrl env (searchStrategy q) term ''icd11'']
                            @ map snd (traditionalSystems env term)))"
  proof (intro impI)
    assume t: "term \<noteq> [] \<and> trim env term \<noteq> []"
    then have t1: "term \<noteq> []" and t2: "trim env term \<noteq> []" by simp_all
    note st = performSearch_settled_run(3) [OF t1 t2, of q]
    have slots: "\<exists>r. results_state (snd (performSearch_settled env term q)) = Some r
                \<and> (buildSearchUrl env (searchStrategy q) term ''combined'' = url \<longrightarrow> res_combined r = Val ?E)
                \<and> (buildSearchUrl env (searchStrategy q) term ''icd11'' = url \<longrightarrow> res_icd11 r = Val ?E)
                \<and> ((''ayurveda'', url) \<in> set (traditionalSystems env term) \<longrightarrow> res_ayurveda r = Val ?E)
                \<and> ((''unani'', url) \<in> set (traditionalSystems env term) \<longrightarrow> res_unani r = Val ?E)
                \<and> ((''siddha'', url) \<in> set (traditionalSystems env term) \<longrightarrow> res_siddha r = Val ?E)"
      unfolding st using E traditionalSystems_urls [where url = url and env = env] by auto
    show "fst (performSearch_settled env term q) = Inr ()
          \<and> (\<exists>r. results_state (snd (performSearch_settled env term q)) = Some r
                \<and> (buildSearchUrl env (searchStrategy q) term ''combined'' = url \<longrightarrow> res_combined r = Val ?E)
                \<and> (buildSearchUrl env (searchStrategy q) term ''icd11'' = url \<longrightarrow> res_icd11 r = Val ?E)
                \<and> ((''ayurveda'', url) \<in> set (traditionalSystems env term) \<longrightarrow> res_ayurveda r = Val ?E)
                \<and> ((''unani'', url) \<in> set (traditionalSystems env term) \<longrightarrow> res_unani r = Val ?E)
                \<and> ((''siddha'', url) \<in> set (traditionalSystems env term) \<longrightarrow> res_siddha r = Val ?E))
          \<and> console (snd (performSearch_settled env term q))
              = console q
                @ concat (map (\<lambda>u. if request_fails env u then [''Error fetching data:''] else [])
                           ([buildSearchUrl env (searchStrategy q) term ''combined'',
                             buildSearchUrl env (searchStrategy q) term ''icd11'']
                            @ map snd (traditionalSystems env term)))"
      using slots performSearch_settled_run(1) [OF t1 t2, of q]
        performSearch_settled_console [OF t1 t2, of q]
      by blast
  qed
  from a a' b b' c d e f g h show ?thesis by blast
qed

theorem network_failure_yields_component_default_witness:
  "fst (SearchPage_fetchData (example_env offline)
          ''http://localhost:8000/terminologies/ayurveda/search/?q=fever&threshold=0.2&page=1&page_size=10''
          fresh_search_page) = (Inr None :: exn + term_rec listing option)
   \<and> console (snd (SearchPage_fetchData (example_env (offline :: string \<Rightarrow> term_rec listing response option))
          ''http://localhost:8000/terminologies/ayurveda/search/?q=fever&threshold=0.2&page=1&page_size=10''
          fresh_search_page)) = [''Error fetching data:'']
   \<and> fst (fetchPaginatedData (example_env offline) ''http://localhost:8000'' ''fever'' (Some ''ayurveda'') 1 10
          fresh_details)
       = Inr \<lparr>results = Val ([] :: term_rec list), count = Val 0, next_link = Null, previous = Null\<rparr>
   \<and> results_list (snd (handleSearch (example_env offline) Ayurveda ''fever'' fresh_system_page)) = []
   \<and> (\<exists>r. results_state (snd (performSearch_settled (example_env offline) ''fever'' fresh_search_page))
             = Some r
          \<and> res_combined r
              = Val \<lparr>results = Val [], count = Absent, next_link = Absent, previous = Absent\<rparr>)"
proof -
  let ?url = "''http://localhost:8000/terminologies/ayurveda/search/?q=fever&threshold=0.2&page=1&page_size=10''"
  let ?env = "example_env (offline :: string \<Rightarrow> term_rec listing response option)"
  have h: "request_fails ?env ?url"
    by (simp add: request_fails_def example_env_def offline_def)
  have u: "paginatedUrl ?env ''http://localhost:8000'' ''fever'' (Some ''ayurveda'') 1 10 = Some ?url"
    by code_simp
  have c: "apiCache (fresh_details :: term_rec listing mapping_details_page) ?url = None"
    by (simp add: fresh_details_def)
  have k: "console fresh_search_page = []" by (simp add: fresh_search_page_def)
  note w = network_failure_yields_component_default [OF h,
      of fresh_search_page "(''ayurveda'', ?url)" fresh_search_page "''fever''" fresh_details
         "''http://localhost:8000''" "''fever''" "Some ''ayurveda''" 1 10 "''ayurveda''"
         fresh_system_results_page "example_env offline" Ayurveda fresh_system_page]
  have t: "trim (example_env (offline :: string \<Rightarrow> term_rec payload response option)) ''fever'' \<noteq> []"
    by (simp add: example_env_def)
  have hs: "request_fails (example_env (offline :: string \<Rightarrow> term_rec payload response option))
              (searchEp (example_env offline) Ayurveda @ encodeURIComponent (example_env offline) ''fever'')"
    by (simp add: request_fails_def example_env_def offline_def)
  from w u c t hs
  have part0: "fst (SearchPage_fetchData ?env ?url fresh_search_page) = Inr None"
    "console (snd (SearchPage_fetchData ?env ?url fresh_search_page))
       = console fresh_search_page @ [''Error fetching data:'']"
    "fst (fetchPaginatedData ?env ''http://localhost:8000'' ''fever'' (Some ''ayurveda'') 1 10 fresh_details)
       = Inr \<lparr>results = Val [], count = Val 0, next_link = Null, previous = Null\<rparr>"
    "results_list (snd (handleSearch (example_env offline) Ayurveda ''fever'' fresh_system_page)) = []"
    by blast+
  have part1: "fst (SearchPage_fetchData ?env ?url fresh_search_page) = Inr None"
    "console (snd (SearchPage_fetchData ?env ?url fresh_search_page)) = [''Error fetching data:'']"
    "fst (fetchPaginatedData ?env ''http://localhost:8000'' ''fever'' (Some ''ayurveda'') 1 10 fresh_details)
       = Inr \<lparr>results = Val [], count = Val 0, next_link = Null, previous = Null\<rparr>"
    "results_list (snd (handleSearch (example_env offline) Ayurveda ''fever'' fresh_system_page)) = []"
    using part0 k by simp_all
  let ?c = "buildSearchUrl ?env (searchStrategy fresh_search_page) ''fever'' ''combined''"
  have h2: "request_fails ?env ?c"
    by (simp add: request_fails_def example_env_def offline_def)
  have t1: "''fever'' \<noteq> [] \<and> trim ?env ''fever'' \<noteq> []" by (simp add: example_env_def)
  note w2 = network_failure_yields_component_default [OF h2,
      of _ _ fresh_search_page "''fever''"]
  have part2: "\<exists>r. results_state (snd (performSearch_settled ?env ''fever'' fresh_search_page)) = Some r
          \<and> res_combined r
              = Val \<lparr>results = Val [], count = Absent, next_link = Absent, previous = Absent\<rparr>"
    using w2 t1 by blast
  from part1 part2 show ?thesis by blast
qed

text \<open>
  Claim C4 as stated fails in SearchPage: on a network failure its \<open>fetchData\<close> gives the
  caller \<open>null\<close>, not \<open>{ results: [], count: 0 }\<close>, and what the search handler then stores
  for the source is \<open>{ results: [] }\<close>, an object that has no \<open>count\<close>.
\<close>

theorem network_failure_empty_result_counterexample:
  "fst (SearchPage_fetchData (example_env offline)
          ''http://localhost:8000/terminologies/search/icd11/?q=fever&fuzzy=true&threshold=0.3&page_size=15''
          fresh_search_page) = (Inr None :: exn + term_rec listing option)
   \<and> map_option res_icd11
        (results_state (snd (performSearch_settled (example_env offline) ''fever'' fresh_search_page)))
       = Some (Val \<lparr>results = Val [], count = Absent, next_link = Absent, previous = Absent\<rparr>)"
proof -
  have a: "fst (SearchPage_fetchData (example_env offline)
          ''http://localhost:8000/terminologies/search/icd11/?q=fever&fuzzy=true&threshold=0.3&page_size=15''
          fresh_search_page) = (Inr None :: exn + term_rec listing option)"
    by (simp add: SearchPage_fetchData_run delivered_def example_env_def offline_def)
  have h1: "''fever'' \<noteq> []" by simp
  have h2: "trim (example_env offline) ''fever'' \<noteq> []" by (simp add: example_env_def)
  note r = performSearch_settled_run(3) [OF h1 h2, of fresh_search_page]
  have b: "map_option res_icd11
        (results_state (snd (performSearch_settled (example_env offline) ''fever'' fresh_search_page)))
       = Some (Val \<lparr>results = Val [], count = Absent, next_link = Absent, previous = Absent\<rparr>)"
    unfolding r
    by (simp add: delivered_def example_env_def offline_def or_empty_results_def results_only_def)
  from a b show ?thesis by blast
qed


section \<open>Verified properties: upload gate\<close>

lemma isAdmin_iff:
  "isAdmin s \<longleftrightarrow>
     (\<exists>u. currentUser s = Some u \<and> displayName u = Val ''root'' \<and> email u = Val ''root@gmail.com'')"
  by (cases "currentUser s") (auto simp: isAdmin_def opt_displayName_def opt_email_def)

lemma handleFilePick_run:
  "fst (handleFilePick s) = Inr ()"
  "filePickerClicks (snd (handleFilePick s))
     = (if userChecked s \<and> isAdmin s then filePickerClicks s + 1 else filePickerClicks s)"
  "alerts (snd (handleFilePick s))
     = (if \<not> userChecked s then alerts s @ [''Please wait while we check your authentication status...'']
        else if \<not> isLoggedIn s then alerts s @ [''Please log in to upload files'']
        else if \<not> isAdmin s then alerts s @ [''Only admin users can upload files'']
        else alerts s)"
  by (auto simp: handleFilePick_def alert_def js_bind_def js_get_def set_state_def
        isLoggedIn_def isAdmin_def opt_displayName_def opt_email_def)

text \<open>
  Claim C6, as the code has it. The user is the admin exactly when the signed-in user's
  display name is \<open>root\<close> and the email is \<open>root@gmail.com\<close>. The upload icon has its enabled
  class exactly when the authentication check has completed, no upload is running, and
  the user is the admin; while the check is pending or an upload is running it has the
  class \<open>upload-icon checking\<close> for every user, and while the check is pending the tooltip
  \<open>Checking authentication...\<close>. A click opens the file picker exactly when the check has
  completed and the user is the admin. For every other user, signed in or not, once the
  check has completed and while no upload is running, the icon has the disabled class and
  a tooltip that says why, and a click opens nothing and shows a message. The icon is
  part of the page for Ayurveda, Siddha and Unani only, the systems with a CSV endpoint.
\<close>

theorem upload_gate:
  "(isAdmin s \<longleftrightarrow>
      (\<exists>u. currentUser s = Some u \<and> displayName u = Val ''root'' \<and> email u = Val ''root@gmail.com''))
   \<and> (getUploadIconClass s = ''upload-icon'' \<longleftrightarrow> userChecked s \<and> \<not> uploading s \<and> isAdmin s)
   \<and> (\<not> userChecked s \<or> uploading s \<longrightarrow> getUploadIconClass s = ''upload-icon checking'')
   \<and> (\<not> userChecked s \<longrightarrow> getUploadIconTitle s = ''Checking authentication...'')
   \<and> (userChecked s \<and> isAdmin s \<longrightarrow> getUploadIconTitle s = ''Upload CSV to update database'')
   \<and> (filePickerClicks (snd (handleFilePick s)) = filePickerClicks s + 1
        \<longleftrightarrow> userChecked s \<and> isAdmin s)
   \<and> (userChecked s \<and> \<not> uploading s \<and> \<not> isAdmin s \<longrightarrow>
         getUploadIconClass s = ''upload-icon disabled''
       \<and> getUploadIconTitle s = (if currentUser s = None then ''Please log in to upload files''
                                  else ''Only admin can upload files''))
   \<and> (\<not> isAdmin s \<longrightarrow>
         filePickerClicks (snd (handleFilePick s)) = filePickerClicks s
       \<and> length (alerts (snd (handleFilePick s))) = length (alerts s) + 1)
   \<and> upload_icon env systemName s
        = (if systemName = Ayurveda \<or> systemName = Siddha \<or> systemName = Unani
           then Some (getUploadIconClass s, getUploadIconTitle s) else None)"
proof -
  have a: "getUploadIconClass s = ''upload-icon'' \<longleftrightarrow> userChecked s \<and> \<not> uploading s \<and> isAdmin s"
    by (auto simp: getUploadIconClass_def isLoggedIn_def isAdmin_def opt_displayName_def
          split: option.splits)
  have b: "filePickerClicks (snd (handleFilePick s)) = filePickerClicks s + 1
             \<longleftrightarrow> userChecked s \<and> isAdmin s"
    by (simp add: handleFilePick_run(2))
  have c: "userChecked s \<and> \<not> uploading s \<and> \<not> isAdmin s \<longrightarrow>
             getUploadIconClass s = ''upload-icon disabled''
           \<and> getUploadIconTitle s = (if currentUser s = None then ''Please log in to upload files''
                                      else ''Only admin can upload files'')"
    by (auto simp: getUploadIconClass_def getUploadIconTitle_def isLoggedIn_def)
  have d: "\<not> isAdmin s \<longrightarrow>
             filePickerClicks (snd (handleFilePick s)) = filePickerClicks s
           \<and> length (alerts (snd (handleFilePick s))) = length (alerts s) + 1"
    by (simp add: handleFilePick_run(2,3))
  have e: "upload_icon env systemName s
        = (if systemName = Ayurveda \<or> systemName = Siddha \<or> systemName = Unani
           then Some (getUploadIconClass s, getUploadIconTitle s) else None)"
    by (cases systemName) (simp_all add: upload_icon_def csvEp_def)
  have f: "\<not> userChecked s \<or> uploading s \<longrightarrow> getUploadIconClass s = ''upload-icon checking''"
    by (auto simp: getUploadIconClass_def)
  have g: "\<not> userChecked s \<longrightarrow> getUploadIconTitle s = ''Checking authentication...''"
    by (simp add: getUploadIconTitle_def)
  have h: "userChecked s \<and> isAdmin s \<longrightarrow> getUploadIconTitle s = ''Upload CSV to update database''"
    by (cases "currentUser s")
       (auto simp: getUploadIconTitle_def isLoggedIn_def isAdmin_def opt_displayName_def)
  from isAdmin_iff [of s] a b c d e f g h show ?thesis by blast
qed

theorem upload_gate_witness:
  "getUploadIconClass (fresh_system_page\<lparr>currentUser := Some root_user, userChecked := True\<rparr>)
     = ''upload-icon''
   \<and> filePickerClicks (snd (handleFilePick
        (fresh_system_page\<lparr>currentUser := Some root_user, userChecked := True\<rparr>))) = 1
   \<and> getUploadIconClass
        (fresh_system_page\<lparr>currentUser := Some (root_user\<lparr>email := Val ''someone@gmail.com''\<rparr>),
                            userChecked := True\<rparr>) = ''upload-icon disabled''
   \<and> getUploadIconTitle
        (fresh_system_page\<lparr>currentUser := Some (root_user\<lparr>email := Val ''someone@gmail.com''\<rparr>),
                            userChecked := True\<rparr>) = ''Only admin can upload files''
   \<and> filePickerClicks (snd (handleFilePick
        (fresh_system_page\<lparr>currentUser := Some (root_user\<lparr>email := Val ''someone@gmail.com''\<rparr>),
                            userChecked := True\<rparr>))) = 0
   \<and> getUploadIconClass fresh_system_page = ''upload-icon checking''
   \<and> getUploadIconTitle fresh_system_page = ''Checking authentication...''
   \<and> getUploadIconClass
        (fresh_system_page\<lparr>currentUser := Some (root_user\<lparr>email := Val ''someone@gmail.com''\<rparr>),
                            userChecked := True, uploading := True\<rparr>) = ''upload-icon checking''"
proof -
  let ?admin = "fresh_system_page\<lparr>currentUser := Some root_user, userChecked := True\<rparr>"
  let ?other = "fresh_system_page\<lparr>currentUser := Some (root_user\<lparr>email := Val ''someone@gmail.com''\<rparr>),
                            userChecked := True\<rparr>"
  have h1: "\<exists>u. currentUser ?admin = Some u \<and> displayName u = Val ''root'' \<and> email u = Val ''root@gmail.com''"
    by (simp add: root_user_def)
  have h2: "\<not> (\<exists>u. currentUser ?other = Some u \<and> displayName u = Val ''root'' \<and> email u = Val ''root@gmail.com'')"
    by (simp add: root_user_def)
  have s1: "userChecked ?admin" "\<not> uploading ?admin" "filePickerClicks ?admin = 0"
    by (simp_all add: fresh_system_page_def)
  have s2: "userChecked ?other" "\<not> uploading ?other" "filePickerClicks ?other = 0"
    "currentUser ?other \<noteq> None"
    by (simp_all add: fresh_system_page_def)
  from upload_gate [of ?admin] h1 s1 have A:
    "getUploadIconClass ?admin = ''upload-icon''"
    "filePickerClicks (snd (handleFilePick ?admin)) = 1" by auto
  from upload_gate [of ?other] h2 s2 have B:
    "getUploadIconClass ?other = ''upload-icon disabled''"
    "getUploadIconTitle ?other = ''Only admin can upload files''"
    "filePickerClicks (snd (handleFilePick ?other)) = 0" by auto
  let ?busy = "fresh_system_page\<lparr>currentUser := Some (root_user\<lparr>email := Val ''someone@gmail.com''\<rparr>),
                            userChecked := True, uploading := True\<rparr>"
  have s3: "\<not> userChecked fresh_system_page" "uploading ?busy"
    by (simp_all add: fresh_system_page_def)
  from upload_gate [of fresh_system_page] s3(1) have C:
    "getUploadIconClass fresh_system_page = ''upload-icon checking''"
    "getUploadIconTitle fresh_system_page = ''Checking authentication...''" by blast+
  from upload_gate [of ?busy] s3(2) have D:
    "getUploadIconClass ?busy = ''upload-icon checking''" by blast
  from A B C D show ?thesis by blast
qed

text \<open>
  Claim C6 as stated fails while an upload is running: the user is \<open>root\<close> with
  \<open>root@gmail.com\<close>, the check has completed, and the icon has the class
  \<open>upload-icon checking\<close>, not the enabled one.
\<close>

theorem upload_gate_enabled_iff_admin_counterexample:
  "isAdmin (fresh_system_page\<lparr>currentUser := Some root_user, userChecked := True, uploading := True\<rparr>)
   \<and> getUploadIconClass
        (fresh_system_page\<lparr>currentUser := Some root_user, userChecked := True, uploading := True\<rparr>)
       = ''upload-icon checking''
   \<and> ''upload-icon checking'' \<noteq> ''upload-icon''"
  by (simp add: isAdmin_def getUploadIconClass_def opt_displayName_def opt_email_def
        fresh_system_page_def root_user_def)


section \<open>Verified properties: background page fetching\<close>

text \<open>
  Claim C9, as the code has it. \<open>fetchAllPagesForSystem\<close> always returns, without an
  exception, after at most \<open>maxPages\<close> requests (three by default), whatever the server
  reports in \<open>next\<close>. Its result holds at most \<open>maxPages * pageSize\<close> items provided that,
  of the pages the loop itself asks for (its own URLs, with \<open>page_size=50\<close>), none that
  the server or the cache delivers holds more than \<open>pageSize\<close> (50) items: the loop
  appends each page whole. Nothing is assumed about the answer to any other request.
\<close>

theorem background_page_fetch_is_bounded:
  "\<exists>xs s'. fetchAllPagesForSystem env baseUrl searchTerm system maxPages s
             = (Inr \<lparr>results = Val xs, count = Val (length xs), next_link = Absent, previous = Absent\<rparr>, s')
     \<and> length (requests s') \<le> length (requests s) + maxPages
     \<and> (pages_within detail_pageSize env baseUrl searchTerm system s \<longrightarrow> length xs \<le> maxPages * detail_pageSize)"
proof -
  obtain xs s' where
    run: "fetchAllPages_loop env baseUrl searchTerm system maxPages [] 1 True s = (Inr xs, s')"
    and req: "length (requests s') \<le> length (requests s) + (if True then Suc maxPages - 1 else 0)"
    and len: "pages_within detail_pageSize env baseUrl searchTerm system s \<longrightarrow>
                length xs \<le> length ([] :: 'a list) + detail_pageSize * (if True then Suc maxPages - 1 else 0)"
    using fetchAllPages_loop_bound [of env baseUrl searchTerm system maxPages "[]" 1 True s detail_pageSize]
    by blast
  have "fetchAllPagesForSystem env baseUrl searchTerm system maxPages s
          = (Inr \<lparr>results = Val xs, count = Val (length xs), next_link = Absent, previous = Absent\<rparr>, s')"
    using run by (simp add: fetchAllPagesForSystem_def js_bind_def js_return_def)
  moreover have "length (requests s') \<le> length (requests s) + maxPages" using req by simp
  moreover have "pages_within detail_pageSize env baseUrl searchTerm system s \<longrightarrow> length xs \<le> maxPages * detail_pageSize"
    using len by (simp add: mult.commute)
  ultimately show ?thesis by blast
qed

theorem background_page_fetch_is_bounded_witness:
  "fst (fetchAllPagesForSystem (example_env honouring_server) ''http://localhost:8000'' ''fever''
          (Some ''ayurveda'') default_maxPages fresh_details)
     = Inr \<lparr>results = Val (replicate 150 ()), count = Val 150, next_link = Absent, previous = Absent\<rparr>
   \<and> length (requests (snd (fetchAllPagesForSystem (example_env honouring_server) ''http://localhost:8000''
          ''fever'' (Some ''ayurveda'') default_maxPages fresh_details))) \<le> 3
   \<and> 150 \<le> default_maxPages * detail_pageSize
   \<and> honouring_server ''http://localhost:8000/terminologies/ayurveda/search/?q=fever&threshold=0.2&page=1&page_size=100''
       = Some (Response True 200
           (Some \<lparr>results = Val (replicate 100 ()), count = Val 1000, next_link = Val ''more'',
                  previous = Null\<rparr>))"
proof -
  have fifty: "string_of_nat detail_pageSize = ''50''" by code_simp
  have tail: "\<And>front. drop (length (front @ ''&page_size='' @ ''50'') - 12) (front @ ''&page_size='' @ ''50'')
                 = ''page_size=50''"
    by simp
  have url: "\<And>page url.
      paginatedUrl (example_env honouring_server) ''http://localhost:8000'' ''fever'' (Some ''ayurveda'')
        page detail_pageSize = Some url
      \<Longrightarrow> drop (length url - 12) url = ''page_size=50''"
  proof -
    fix page url
    assume "paginatedUrl (example_env honouring_server) ''http://localhost:8000'' ''fever''
              (Some ''ayurveda'') page detail_pageSize = Some url"
    then have "url = (''http://localhost:8000'' @ ''/terminologies/'' @ ''ayurveda'' @ ''/search/?q=''
                      @ ''fever'' @ ''&threshold=0.2&page='' @ string_of_nat page)
                     @ ''&page_size='' @ ''50''"
      unfolding paginatedUrl_def fifty by (simp add: example_env_def)
    then show "drop (length url - 12) url = ''page_size=50''"
      using tail by blast
  qed
  have pw: "pages_within detail_pageSize (example_env honouring_server) ''http://localhost:8000'' ''fever''
              (Some ''ayurveda'') fresh_details"
    unfolding pages_within_def
  proof (intro allI impI)
    fix page url and b :: "unit listing"
    assume a: "paginatedUrl (example_env honouring_server) ''http://localhost:8000'' ''fever''
                 (Some ''ayurveda'') page detail_pageSize = Some url
               \<and> (delivered (example_env honouring_server) url = Some b
                  \<or> apiCache fresh_details url = Some b)"
    then have d: "delivered (example_env honouring_server) url = Some b"
      by (simp add: fresh_details_def)
    from a have "drop (length url - 12) url = ''page_size=50''" using url by blast
    then have "honouring_server url
                 = Some (Response True 200
                     (Some \<lparr>results = Val (replicate 50 ()), count = Val 1000,
                            next_link = Val ''more'', previous = Null\<rparr>))"
      by (simp add: honouring_server_def)
    then have "results b = Val (replicate 50 ())"
      using d by (auto simp: delivered_def example_env_def split: option.splits if_splits)
    then show "length (results_or_empty (results b)) \<le> detail_pageSize"
      by (simp add: results_or_empty_def detail_pageSize_def)
  qed
  have ev: "fst (fetchAllPagesForSystem (example_env honouring_server) ''http://localhost:8000'' ''fever''
          (Some ''ayurveda'') default_maxPages fresh_details)
     = Inr \<lparr>results = Val (replicate 150 ()), count = Val 150, next_link = Absent, previous = Absent\<rparr>"
    by code_simp
  have other: "honouring_server ''http://localhost:8000/terminologies/ayurveda/search/?q=fever&threshold=0.2&page=1&page_size=100''
       = Some (Response True 200
           (Some \<lparr>results = Val (replicate 100 ()), count = Val 1000, next_link = Val ''more'',
                  previous = Null\<rparr>))"
    by code_simp
  obtain xs s' where
    run: "fetchAllPagesForSystem (example_env honouring_server) ''http://localhost:8000'' ''fever''
            (Some ''ayurveda'') default_maxPages fresh_details
          = (Inr \<lparr>results = Val xs, count = Val (length xs), next_link = Absent, previous = Absent\<rparr>, s')"
    and req: "length (requests s') \<le> length (requests (fresh_details :: unit listing mapping_details_page))
                + default_maxPages"
    and len: "length xs \<le> default_maxPages * detail_pageSize"
    using background_page_fetch_is_bounded [of "example_env honouring_server" "''http://localhost:8000''"
        "''fever''" "Some ''ayurveda''" default_maxPages fresh_details] pw
    by blast
  have xs: "xs = replicate 150 ()" using run ev by simp
  have "length (requests (snd (fetchAllPagesForSystem (example_env honouring_server) ''http://localhost:8000''
          ''fever'' (Some ''ayurveda'') default_maxPages fresh_details))) \<le> 3"
    using req run by (simp add: fresh_details_def default_maxPages_def)
  moreover have "150 \<le> default_maxPages * detail_pageSize"
    using len xs by simp
  ultimately show ?thesis using ev other by blast
qed

text \<open>
  Claim C9 as stated fails against a server that puts 51 items on a page: three pages
  are fetched and the result holds 153 items, more than \<open>3 * 50\<close>.
\<close>

theorem background_page_fetch_item_bound_counterexample:
  "fst (fetchAllPagesForSystem (example_env (every_page 51)) ''http://localhost:8000'' ''fever''
          (Some ''ayurveda'') default_maxPages fresh_details)
     = Inr \<lparr>results = Val (replicate 153 ()), count = Val 153, next_link = Absent, previous = Absent\<rparr>
   \<and> default_maxPages * detail_pageSize = 150"
  by code_simp

end
